theory Spec2Isabelle
  imports Main "HOL-Library.Sublist"
begin

section \<open>Request payloads\<close>

text \<open>
  \<^verbatim>\<open>handle_task_send(params: dict, ...)\<close> receives a decoded JSON object. A payload value
  is a JSON value as Python's decoder builds it: \<^verbatim>\<open>None\<close>, a bool, a number, a \<^verbatim>\<open>str\<close>,
  a \<^verbatim>\<open>list\<close> or a \<^verbatim>\<open>dict\<close>. A \<^verbatim>\<open>dict\<close> is an association list in insertion order; a Python
  dict has each key once, and on such a list \<open>map_of\<close> is the dict's lookup. The code
  looks at a number only to test it for zero, so numbers are integers here.
\<close>

datatype json =
    JNull
  | JBool bool
  | JNum int
  | JStr string
  | JArr "json list"
  | JObj "(string \<times> json) list"

text \<open>Python's truth value of a decoded JSON value (\<^verbatim>\<open>if x:\<close>, \<^verbatim>\<open>not x\<close>, \<^verbatim>\<open>x or y\<close>).\<close>

fun truthy :: "json \<Rightarrow> bool" where
  "truthy JNull = False"
| "truthy (JBool b) = b"
| "truthy (JNum n) = (n \<noteq> 0)"
| "truthy (JStr s) = (s \<noteq> [])"
| "truthy (JArr xs) = (xs \<noteq> [])"
| "truthy (JObj d) = (d \<noteq> [])"

text \<open>\<^verbatim>\<open>a or b\<close>: the first operand when it is truthy, the second otherwise.\<close>

definition py_or :: "json \<Rightarrow> json \<Rightarrow> json" where
  "py_or a b = (if truthy a then a else b)"

text \<open>\<^verbatim>\<open>d.get(k, default)\<close>.\<close>

definition dict_get :: "(string \<times> json) list \<Rightarrow> string \<Rightarrow> json \<Rightarrow> json" where
  "dict_get d k dflt = (case map_of d k of None \<Rightarrow> dflt | Some v \<Rightarrow> v)"

text \<open>
  The exceptions that leave \<^verbatim>\<open>handle_task_send\<close>, \<^verbatim>\<open>handle_task_get\<close> and
  \<^verbatim>\<open>handle_task_cancel\<close>. The source raises \<^verbatim>\<open>ValueError\<close> twice, with the messages
  "No text content found in request" (\<open>NoContentFound\<close>) and "Task not found"
  (\<open>TaskNotFound\<close>). \<open>AttributeError\<close> is Python's error for \<^verbatim>\<open>.get\<close> on a value that
  is not a dict, \<open>TypeError\<close> its error for iterating a value that is not iterable and
  for hashing a list or a dict, \<open>ValidationError\<close> pydantic's error for a \<^verbatim>\<open>str\<close>
  field given a value that is not a \<^verbatim>\<open>str\<close>. \<open>Uncaught\<close> is an exception of the agent
  graph that \<^verbatim>\<open>except Exception\<close> (line 328) does not catch, with its \<^verbatim>\<open>str(e)\<close>.
\<close>

datatype error =
    NoContentFound | TaskNotFound | AttributeError | TypeError | ValidationError
  | Uncaught string

section \<open>Data model (a2a/models.py)\<close>

datatype TaskState = SUBMITTED | WORKING | INPUT_REQUIRED | COMPLETED | CANCELED | FAILED

text \<open>\<^verbatim>\<open>class Part\<close>: fields \<^verbatim>\<open>type\<close>, \<^verbatim>\<open>text\<close>, \<^verbatim>\<open>mimeType\<close>, \<^verbatim>\<open>data\<close>.\<close>

record Part =
  ptype :: string
  ptext :: "string option"
  mimeType :: "string option"
  pdata :: "string option"

text \<open>\<^verbatim>\<open>class Message\<close>: fields \<^verbatim>\<open>role\<close>, \<^verbatim>\<open>parts\<close>.\<close>

record Message =
  role :: string
  parts :: "Part list"

text \<open>
  \<^verbatim>\<open>class Artifact\<close>: fields \<^verbatim>\<open>name\<close>, \<^verbatim>\<open>description\<close>, \<^verbatim>\<open>parts\<close>, \<^verbatim>\<open>index\<close>, \<^verbatim>\<open>append\<close>,
  \<^verbatim>\<open>lastChunk\<close>.
\<close>

record Artifact =
  aname :: "string option"
  adescription :: "string option"
  aparts :: "Part list"
  aindex :: int
  aappend :: bool
  lastChunk :: bool

text \<open>
  \<^verbatim>\<open>class TaskStatus\<close>: \<^verbatim>\<open>state\<close>, \<^verbatim>\<open>message\<close>, \<^verbatim>\<open>timestamp\<close>. The timestamp's default factory
  reads the clock; the reading is an argument of every function that builds a status.
\<close>

record TaskStatus =
  state :: TaskState
  message :: "Message option"
  timestamp :: string

text \<open>
  \<^verbatim>\<open>class Task\<close>: \<^verbatim>\<open>id\<close>, \<^verbatim>\<open>sessionId\<close>, \<^verbatim>\<open>status\<close>, \<^verbatim>\<open>history\<close>, \<^verbatim>\<open>artifacts\<close>, \<^verbatim>\<open>metadata\<close>.
\<close>

record Task =
  task_id :: string
  sessionId :: "string option"
  status :: TaskStatus
  history :: "Message list"
  artifacts :: "Artifact list"
  metadata :: "(string \<times> json) list"

text \<open>\<^verbatim>\<open>Part(type="text", text=t)\<close>, the other fields at their default \<^verbatim>\<open>None\<close>.\<close>

definition text_part :: "string \<Rightarrow> Part" where
  "text_part t = \<lparr>ptype = ''text'', ptext = Some t, mimeType = None, pdata = None\<rparr>"

text \<open>\<^verbatim>\<open>Message(role=r, parts=[Part(type="text", text=t)])\<close>.\<close>

definition text_message :: "string \<Rightarrow> string \<Rightarrow> Message" where
  "text_message r t = \<lparr>role = r, parts = [text_part t]\<rparr>"

text \<open>
  \<^verbatim>\<open>Artifact(name="response", parts=[Part(type="text", text=t)], index=0, lastChunk=True)\<close>,
  with \<^verbatim>\<open>description\<close> and \<^verbatim>\<open>append\<close> at their defaults.
\<close>

definition response_artifact :: "string \<Rightarrow> Artifact" where
  "response_artifact t =
     \<lparr>aname = Some ''response'', adescription = None, aparts = [text_part t],
      aindex = 0, aappend = False, lastChunk = True\<rparr>"

text \<open>\<^verbatim>\<open>Task(id=tid, sessionId=sid)\<close>: status \<^verbatim>\<open>SUBMITTED\<close>, the rest empty.\<close>

definition new_task :: "string \<Rightarrow> string \<Rightarrow> string \<Rightarrow> Task" where
  "new_task tid sid now =
     \<lparr>task_id = tid, sessionId = Some sid,
      status = \<lparr>state = SUBMITTED, message = None, timestamp = now\<rparr>,
      history = [], artifacts = [], metadata = []\<rparr>"

text \<open>The module-level \<^verbatim>\<open>tasks: dict[str, Task]\<close>.\<close>

type_synonym store = "string \<rightharpoonup> Task"

section \<open>The external executor and the environment of one call\<close>

text \<open>
  The messages exchanged with the agent graph. The content of a message is a \<^verbatim>\<open>str\<close> or a
  list of content blocks: \<open>AIMessage\<close> is an \<^verbatim>\<open>AIMessage\<close> whose content is a \<^verbatim>\<open>str\<close>,
  \<open>AIMessageBlocks\<close> one whose content is a list. The code reads the content of no other
  class of message in a result: \<open>HumanMessage\<close> and \<open>OtherMessage\<close> (tool and system
  messages) carry it as a string.
\<close>

datatype lc_message =
    HumanMessage string
  | AIMessage string
  | AIMessageBlocks "json list"
  | OtherMessage string

text \<open>
  An exception raised by the call of the graph, with its \<^verbatim>\<open>str(e)\<close>: one of class
  \<^verbatim>\<open>Exception\<close>, or one outside that class (\<^verbatim>\<open>asyncio.CancelledError\<close>,
  \<^verbatim>\<open>KeyboardInterrupt\<close>, \<^verbatim>\<open>SystemExit\<close>), which \<^verbatim>\<open>except Exception\<close> lets through.
\<close>

datatype raised = PyException string | PyBaseException string

text \<open>
  What one call of \<^verbatim>\<open>handle_task_send\<close> reads from outside: the two values
  \<^verbatim>\<open>str(uuid4())\<close> that it may draw (for the task id and for the session id), the clock
  at the three places a \<^verbatim>\<open>TaskStatus\<close> is built, and the agent graph. The graph is given
  the conversation and either raises (\<open>Inl\<close>) or returns \<^verbatim>\<open>result["messages"]\<close> (\<open>Inr\<close>).
  \<open>part_error\<close> is the \<^verbatim>\<open>str(e)\<close> of the \<^verbatim>\<open>ValidationError\<close> that
  \<^verbatim>\<open>Part(type="text", text=...)\<close> raises for a list of content blocks.
\<close>

record env =
  uuid_task :: string
  uuid_session :: string
  t_created :: string
  t_working :: string
  t_final :: string
  executor :: "lc_message list \<Rightarrow> raised + lc_message list"
  part_error :: "json list \<Rightarrow> string"

section \<open>Extracting the user text (server.py, lines 248-280)\<close>

text \<open>
  \<^verbatim>\<open>for part in parts\<close>: a list yields its elements, a \<^verbatim>\<open>str\<close> its characters as
  one-character strings, a dict its keys; anything else raises \<^verbatim>\<open>TypeError\<close>.
\<close>

fun iter_json :: "json \<Rightarrow> error + json list" where
  "iter_json (JArr xs) = Inr xs"
| "iter_json (JStr s) = Inr (map (\<lambda>c. JStr [c]) s)"
| "iter_json (JObj d) = Inr (map (\<lambda>kv. JStr (fst kv)) d)"
| "iter_json JNull = Inl TypeError"
| "iter_json (JBool b) = Inl TypeError"
| "iter_json (JNum n) = Inl TypeError"

text \<open>
  The loop over the parts (lines 255-262), started with \<^verbatim>\<open>user_text = ""\<close>: the first part
  that is a dict with \<^verbatim>\<open>type == "text"\<close> or with a \<^verbatim>\<open>text\<close> key gives
  \<^verbatim>\<open>part.get("text", "")\<close>, the first part that is a \<^verbatim>\<open>str\<close> gives itself, and the
  loop stops there.
\<close>

fun scan_parts :: "json list \<Rightarrow> json" where
  "scan_parts [] = JStr []"
| "scan_parts (JObj d # ps) =
     (if dict_get d ''type'' JNull = JStr ''text'' \<or> map_of d ''text'' \<noteq> None
      then dict_get d ''text'' (JStr [])
      else scan_parts ps)"
| "scan_parts (JStr s # ps) = JStr s"
| "scan_parts (JNull # ps) = scan_parts ps"
| "scan_parts (JBool b # ps) = scan_parts ps"
| "scan_parts (JNum n # ps) = scan_parts ps"
| "scan_parts (JArr xs # ps) = scan_parts ps"

text \<open>
  Lines 252-265: the value of \<^verbatim>\<open>user_text\<close> after "Format 1". \<^verbatim>\<open>message_data.get\<close> on a
  truthy value that is not a dict raises \<^verbatim>\<open>AttributeError\<close>.
\<close>

definition message_text :: "(string \<times> json) list \<Rightarrow> error + json" where
  "message_text params =
     (let message_data = dict_get params ''message'' (JObj []) in
      if truthy message_data then
        (case message_data of
           JObj m \<Rightarrow>
             (case iter_json (dict_get m ''parts'' (JArr [])) of
                Inl e \<Rightarrow> Inl e
              | Inr ps \<Rightarrow>
                  (let user_text = scan_parts ps in
                   if \<not> truthy user_text
                   then Inr (py_or (dict_get m ''text'' (JStr [])) (dict_get m ''content'' (JStr [])))
                   else Inr user_text))
         | _ \<Rightarrow> Inl AttributeError)
      else Inr (JStr []))"

text \<open>Lines 248-280: the truthy \<^verbatim>\<open>user_text\<close> the code goes on with, or the exception.\<close>

definition extract_user_text :: "(string \<times> json) list \<Rightarrow> error + json" where
  "extract_user_text params =
     (case message_text params of
        Inl e \<Rightarrow> Inl e
      | Inr u0 \<Rightarrow>
          (let u1 = (if \<not> truthy u0
                     then py_or (py_or (dict_get params ''text'' (JStr []))
                                       (dict_get params ''content'' (JStr [])))
                                (dict_get params ''query'' (JStr []))
                     else u0);
               u2 = (if \<not> truthy u1 then dict_get params ''prompt'' (JStr []) else u1);
               u3 = (if \<not> truthy u2 then dict_get params ''input'' (JStr []) else u2)
           in if \<not> truthy u3 then Inl NoContentFound else Inr u3))"

section \<open>The task lifecycle (server.py, lines 242-353)\<close>

text \<open>
  Lines 283-287. \<^verbatim>\<open>task_id in tasks\<close> hashes the id: a list or a dict raises
  \<^verbatim>\<open>TypeError\<close>. The store's keys are strings, so any other id that is not a string is
  not in it, and \<^verbatim>\<open>Task(id=..., sessionId=...)\<close> then rejects it, as it rejects a session
  id that is not a string, before anything is stored.
\<close>

definition resolve_task :: "env \<Rightarrow> store \<Rightarrow> json \<Rightarrow> json \<Rightarrow> error + (string \<times> Task \<times> store)" where
  "resolve_task e tasks tid_v sid_v =
     (case tid_v of
        JArr xs \<Rightarrow> Inl TypeError
      | JObj d \<Rightarrow> Inl TypeError
      | JStr tid \<Rightarrow>
          (case tasks tid of
             Some task \<Rightarrow> Inr (tid, task, tasks)
           | None \<Rightarrow>
               (case sid_v of
                  JStr sid \<Rightarrow>
                    (let task = new_task tid sid (t_created e)
                     in Inr (tid, task, tasks(tid \<mapsto> task)))
                | _ \<Rightarrow> Inl ValidationError))
      | _ \<Rightarrow> Inl ValidationError)"

text \<open>
  Lines 296-303: every part with a truthy \<^verbatim>\<open>text\<close> becomes a \<^verbatim>\<open>HumanMessage\<close> when the
  message's role is \<^verbatim>\<open>"user"\<close> and an \<^verbatim>\<open>AIMessage\<close> otherwise.
\<close>

fun part_turns :: "string \<Rightarrow> Part list \<Rightarrow> lc_message list" where
  "part_turns r [] = []"
| "part_turns r (p # ps) =
     (case ptext p of
        None \<Rightarrow> part_turns r ps
      | Some t \<Rightarrow>
          (if t \<noteq> []
           then (if r = ''user'' then HumanMessage t else AIMessage t) # part_turns r ps
           else part_turns r ps))"

fun langchain_messages :: "Message list \<Rightarrow> lc_message list" where
  "langchain_messages [] = []"
| "langchain_messages (msg # msgs) = part_turns (role msg) (parts msg) @ langchain_messages msgs"

text \<open>
  Lines 309-313: \<^verbatim>\<open>response_text\<close>, the content of the last \<^verbatim>\<open>AIMessage\<close> with truthy
  content (a non-empty \<^verbatim>\<open>str\<close> or a non-empty list), \<^verbatim>\<open>""\<close> when there is none. The
  argument of \<open>first_ai_content\<close> is \<^verbatim>\<open>reversed(result["messages"])\<close>.
\<close>

datatype reply = TextReply string | BlocksReply "json list"

fun first_ai_content :: "lc_message list \<Rightarrow> reply" where
  "first_ai_content [] = TextReply []"
| "first_ai_content (AIMessage c # ms) = (if c \<noteq> [] then TextReply c else first_ai_content ms)"
| "first_ai_content (AIMessageBlocks bs # ms) =
     (if bs \<noteq> [] then BlocksReply bs else first_ai_content ms)"
| "first_ai_content (HumanMessage c # ms) = first_ai_content ms"
| "first_ai_content (OtherMessage c # ms) = first_ai_content ms"

definition response_text :: "lc_message list \<Rightarrow> reply" where
  "response_text result = first_ai_content (rev result)"

text \<open>
  Lines 316-326: the agent message is appended to the history, the status becomes
  \<^verbatim>\<open>COMPLETED\<close> with that message, and the artifact is appended.
\<close>

definition complete_task :: "env \<Rightarrow> Task \<Rightarrow> string \<Rightarrow> Task" where
  "complete_task e task rt =
     task\<lparr>history := history task @ [text_message ''agent'' rt],
          status := \<lparr>state = COMPLETED, message = Some (text_message ''agent'' rt),
                     timestamp = t_final e\<rparr>,
          artifacts := artifacts task @ [response_artifact rt]\<rparr>"

text \<open>
  Lines 328-330: the status becomes \<^verbatim>\<open>FAILED\<close> with the message \<^verbatim>\<open>"Error: " + str(e)\<close>;
  history and artifacts stay as they are.
\<close>

definition fail_task :: "env \<Rightarrow> Task \<Rightarrow> string \<Rightarrow> Task" where
  "fail_task e task err =
     task\<lparr>status := \<lparr>state = FAILED,
                     message = Some (text_message ''agent'' (''Error: '' @ err)),
                     timestamp = t_final e\<rparr>\<rparr>"

text \<open>
  Lines 305-332, given what the call of the graph did. On a result whose
  \<^verbatim>\<open>response_text\<close> is a \<^verbatim>\<open>str\<close> the task is completed. On a result whose
  \<^verbatim>\<open>response_text\<close> is a list, \<^verbatim>\<open>Part(type="text", text=response_text)\<close> on line 316
  raises inside the \<^verbatim>\<open>try\<close>, before anything is appended, and the task fails with that
  error. On an exception of class \<^verbatim>\<open>Exception\<close> the task fails with it. Any other
  exception leaves \<^verbatim>\<open>handle_task_send\<close>, and the task stays as the lines before the
  \<^verbatim>\<open>try\<close> left it. The task object is the one in the store under \<open>tid\<close>.
\<close>

definition finish_run ::
  "env \<Rightarrow> store \<Rightarrow> string \<Rightarrow> Task \<Rightarrow> raised + lc_message list \<Rightarrow> (error + Task) \<times> store" where
  "finish_run e tasks tid task outcome =
     (case outcome of
        Inr result \<Rightarrow>
          (case response_text result of
             TextReply rt \<Rightarrow>
               (Inr (complete_task e task rt), tasks(tid \<mapsto> complete_task e task rt))
           | BlocksReply bs \<Rightarrow>
               (Inr (fail_task e task (part_error e bs)),
                tasks(tid \<mapsto> fail_task e task (part_error e bs))))
      | Inl (PyException err) \<Rightarrow>
          (Inr (fail_task e task err), tasks(tid \<mapsto> fail_task e task err))
      | Inl (PyBaseException err) \<Rightarrow> (Inl (Uncaught err), tasks))"

text \<open>
  Lines 289-292: \<^verbatim>\<open>Part(type="text", text=user_text)\<close> rejects a \<^verbatim>\<open>user_text\<close> that is not
  a string; otherwise the user message is appended and the status becomes \<^verbatim>\<open>WORKING\<close>.
\<close>

definition add_user_message :: "env \<Rightarrow> Task \<Rightarrow> json \<Rightarrow> error + Task" where
  "add_user_message e task user_text =
     (case user_text of
        JStr txt \<Rightarrow>
          Inr (task\<lparr>history := history task @ [text_message ''user'' txt],
                    status := \<lparr>state = WORKING, message = None, timestamp = t_working e\<rparr>\<rparr>)
      | _ \<Rightarrow> Inl ValidationError)"

text \<open>
  Lines 245-246: the caller's id or a generated one, the caller's session id (under
  either key) or a generated one.
\<close>

definition request_task_id :: "env \<Rightarrow> (string \<times> json) list \<Rightarrow> json" where
  "request_task_id e params = py_or (dict_get params ''id'' JNull) (JStr (uuid_task e))"

definition request_session_id :: "env \<Rightarrow> (string \<times> json) list \<Rightarrow> json" where
  "request_session_id e params =
     py_or (py_or (dict_get params ''sessionId'' JNull) (dict_get params ''session_id'' JNull))
           (JStr (uuid_session e))"

text \<open>
  Lines 244-292, everything before the call of the graph. \<open>Inl\<close> is the exception raised
  and the store it leaves; \<open>Inr\<close> is the key of the task, the task with the user message
  appended and the status \<^verbatim>\<open>WORKING\<close>, and the store holding it.
\<close>

definition open_task ::
  "env \<Rightarrow> store \<Rightarrow> (string \<times> json) list \<Rightarrow> (error \<times> store) + (string \<times> Task \<times> store)" where
  "open_task e tasks params =
     (case extract_user_text params of
        Inl err \<Rightarrow> Inl (err, tasks)
      | Inr user_text \<Rightarrow>
          (case resolve_task e tasks (request_task_id e params) (request_session_id e params) of
             Inl err \<Rightarrow> Inl (err, tasks)
           | Inr (tid, task, tasks1) \<Rightarrow>
               (case add_user_message e task user_text of
                  Inl err \<Rightarrow> Inl (err, tasks1)
                | Inr task1 \<Rightarrow> Inr (tid, task1, tasks1(tid \<mapsto> task1)))))"

text \<open>
  \<^verbatim>\<open>handle_task_send\<close>. The result is the returned task or the exception raised, and the
  store as the call leaves it. The graph is called with the conversation built from the
  task's history.
\<close>

definition handle_task_send :: "env \<Rightarrow> store \<Rightarrow> (string \<times> json) list \<Rightarrow> (error + Task) \<times> store" where
  "handle_task_send e tasks params =
     (case open_task e tasks params of
        Inl (err, tasks') \<Rightarrow> (Inl err, tasks')
      | Inr (tid, task1, tasks1) \<Rightarrow>
          finish_run e tasks1 tid task1 (executor e (langchain_messages (history task1))))"

text \<open>
  \<^verbatim>\<open>handle_task_get\<close> and \<^verbatim>\<open>handle_task_cancel\<close>. \<^verbatim>\<open>task_id not in tasks\<close> hashes the id,
  as above.
\<close>

definition lookup_task :: "store \<Rightarrow> (string \<times> json) list \<Rightarrow> error + (string \<times> Task)" where
  "lookup_task tasks params =
     (let tid_v = dict_get params ''id'' JNull in
      if \<not> truthy tid_v then Inl TaskNotFound
      else (case tid_v of
              JArr xs \<Rightarrow> Inl TypeError
            | JObj d \<Rightarrow> Inl TypeError
            | JStr tid \<Rightarrow> (case tasks tid of None \<Rightarrow> Inl TaskNotFound | Some task \<Rightarrow> Inr (tid, task))
            | _ \<Rightarrow> Inl TaskNotFound))"

definition handle_task_get :: "store \<Rightarrow> (string \<times> json) list \<Rightarrow> error + Task" where
  "handle_task_get tasks params =
     (case lookup_task tasks params of Inl err \<Rightarrow> Inl err | Inr (tid, task) \<Rightarrow> Inr task)"

definition handle_task_cancel ::
  "string \<Rightarrow> store \<Rightarrow> (string \<times> json) list \<Rightarrow> (error + Task) \<times> store" where
  "handle_task_cancel now tasks params =
     (case lookup_task tasks params of
        Inl err \<Rightarrow> (Inl err, tasks)
      | Inr (tid, task) \<Rightarrow>
          (let task' = task\<lparr>status := \<lparr>state = CANCELED, message = None, timestamp = now\<rparr>\<rparr>
           in (Inr task', tasks(tid \<mapsto> task'))))"

section \<open>Authentication (server.py, lines 41-54)\<close>

text \<open>
  \<^verbatim>\<open>str.replace("Bearer ", "")\<close>: every occurrence, found from the left and not
  overlapping, is removed.
\<close>

fun replace_bearer :: "string \<Rightarrow> string" where
  "replace_bearer [] = []"
| "replace_bearer (c # cs) =
     (if prefix ''Bearer '' (c # cs) then replace_bearer (drop 6 cs)
      else c # replace_bearer cs)"

text \<open>
  \<^verbatim>\<open>str.strip()\<close>. A header value is decoded as Latin-1; \<open>is_space\<close> holds of the code
  points below 256 for which \<^verbatim>\<open>str.isspace\<close> does.
\<close>

definition is_space :: "char \<Rightarrow> bool" where
  "is_space c = ((of_char c :: nat) \<in> {9, 10, 11, 12, 13, 28, 29, 30, 31, 32, 133, 160})"

definition strip :: "string \<Rightarrow> string" where
  "strip s = rev (dropWhile is_space (rev (dropWhile is_space s)))"

datatype http_error = HTTPException nat string

text \<open>
  \<^verbatim>\<open>verify_api_key\<close>, with the module's \<^verbatim>\<open>API_KEY\<close> as first argument and the
  \<^verbatim>\<open>Authorization\<close> header (\<open>None\<close> when the request has none) as second.
\<close>

definition verify_api_key :: "string \<Rightarrow> string option \<Rightarrow> http_error + bool" where
  "verify_api_key API_KEY authorization =
     (if API_KEY = [] then Inr True
      else (case authorization of
              None \<Rightarrow> Inl (HTTPException 401 ''Missing Authorization header'')
            | Some a \<Rightarrow>
                if a = [] then Inl (HTTPException 401 ''Missing Authorization header'')
                else (let token = strip (replace_bearer a)
                      in if token \<noteq> API_KEY then Inl (HTTPException 401 ''Invalid API key'')
                         else Inr True)))"

section \<open>Auxiliary notions for the statements\<close>

text \<open>
  The history and the artifacts a task has before a call: those of the task stored under
  the id, and none when the id is not in the store.
\<close>

definition old_history :: "store \<Rightarrow> string \<Rightarrow> Message list" where
  "old_history tasks tid = (case tasks tid of None \<Rightarrow> [] | Some t \<Rightarrow> history t)"

definition old_artifacts :: "store \<Rightarrow> string \<Rightarrow> Artifact list" where
  "old_artifacts tasks tid = (case tasks tid of None \<Rightarrow> [] | Some t \<Rightarrow> artifacts t)"

text \<open>Whether a payload value is a \<^verbatim>\<open>str\<close>, and the string it is.\<close>

fun is_str :: "json \<Rightarrow> bool" where
  "is_str (JStr s) = True"
| "is_str _ = False"

fun str_of :: "json \<Rightarrow> string" where
  "str_of (JStr s) = s"
| "str_of _ = []"

text \<open>
  A request is normalized, with task id \<open>tid\<close> and user text \<open>txt\<close>, when the extraction
  gives the string \<open>txt\<close>, the id (the caller's or the generated one) is the string
  \<open>tid\<close>, and, for an id that is not in the store, the session id is a string: the
  requests that reach the call of the graph.
\<close>

definition normalized :: "env \<Rightarrow> store \<Rightarrow> (string \<times> json) list \<Rightarrow> string \<Rightarrow> string \<Rightarrow> bool" where
  "normalized e tasks params tid txt \<longleftrightarrow>
     extract_user_text params = Inr (JStr txt) \<and>
     request_task_id e params = JStr tid \<and>
     (tasks tid = None \<longrightarrow> is_str (request_session_id e params))"

text \<open>
  The task a normalized request works on (the stored one, or a new one), and that task
  once the user message is appended and the status is \<^verbatim>\<open>WORKING\<close>.
\<close>

definition prior_task :: "env \<Rightarrow> store \<Rightarrow> (string \<times> json) list \<Rightarrow> string \<Rightarrow> Task" where
  "prior_task e tasks params tid =
     (case tasks tid of
        Some t \<Rightarrow> t
      | None \<Rightarrow> new_task tid (str_of (request_session_id e params)) (t_created e))"

definition working_task :: "env \<Rightarrow> store \<Rightarrow> (string \<times> json) list \<Rightarrow> string \<Rightarrow> string \<Rightarrow> Task" where
  "working_task e tasks params tid txt =
     (prior_task e tasks params tid)
       \<lparr>history := old_history tasks tid @ [text_message ''user'' txt],
        status := \<lparr>state = WORKING, message = None, timestamp = t_working e\<rparr>\<rparr>"

text \<open>
  Every task is stored under its own id, and never under the empty string. The stores
  that submit and cancel build from the empty store are of this kind.
\<close>

definition store_inv :: "store \<Rightarrow> bool" where
  "store_inv tasks \<longleftrightarrow> (\<forall>k t. tasks k = Some t \<longrightarrow> task_id t = k \<and> k \<noteq> [])"


text \<open>
  Authentication as the specification words it: with a secret configured, the header is
  present and its value, with an optional \<^verbatim>\<open>"Bearer "\<close> prefix stripped, equals the secret.
\<close>

definition strip_bearer_prefix :: "string \<Rightarrow> string" where
  "strip_bearer_prefix a = (if prefix ''Bearer '' a then drop 7 a else a)"

definition spec_authenticated :: "string \<Rightarrow> string option \<Rightarrow> bool" where
  "spec_authenticated key authorization =
     (if key = [] then True
      else (case authorization of None \<Rightarrow> False | Some a \<Rightarrow> strip_bearer_prefix a = key))"

text \<open>
  The turn of a role and a text; the non-empty texts of a message's parts, in order; and
  a message with exactly one part, whose text is non-empty.
\<close>

definition turn :: "string \<Rightarrow> string \<Rightarrow> lc_message" where
  "turn r t = (if r = ''user'' then HumanMessage t else AIMessage t)"

definition texts :: "Message \<Rightarrow> string list" where
  "texts m = filter (\<lambda>t. t \<noteq> []) (List.map_filter ptext (parts m))"

definition one_text :: "Message \<Rightarrow> bool" where
  "one_text m =
     (case parts m of
        [p] \<Rightarrow> (case ptext p of None \<Rightarrow> False | Some t \<Rightarrow> t \<noteq> [])
      | _ \<Rightarrow> False)"

text \<open>
  The conversation as the specification words it: every message of the history is
  projected to one turn, tagged by its role, with the text of its first text part.
\<close>

definition first_text :: "Message \<Rightarrow> string option" where
  "first_text m = (case List.map_filter ptext (parts m) of [] \<Rightarrow> None | t # ts \<Rightarrow> Some t)"

definition spec_conversation :: "Message list \<Rightarrow> lc_message list" where
  "spec_conversation h =
     List.map_filter (\<lambda>m. map_option (turn (role m)) (first_text m)) h"

text \<open>
  A payload whose \<^verbatim>\<open>message\<close>, when it is there and truthy, is an object, and whose
  \<^verbatim>\<open>parts\<close>, when they are there, are a list.
\<close>

definition well_typed :: "(string \<times> json) list \<Rightarrow> bool" where
  "well_typed params =
     (case dict_get params ''message'' (JObj []) of
        JObj m \<Rightarrow> (case dict_get m ''parts'' (JArr []) of JArr ps \<Rightarrow> True | _ \<Rightarrow> False)
      | v \<Rightarrow> \<not> truthy v)"

text \<open>
  The extraction as the specification words it: five rules in a fixed order (the first
  matching part of \<^verbatim>\<open>message.parts\<close>; the message's own \<^verbatim>\<open>text\<close> or \<^verbatim>\<open>content\<close>; a
  top-level \<^verbatim>\<open>text\<close>, \<^verbatim>\<open>content\<close> or \<^verbatim>\<open>query\<close>; \<^verbatim>\<open>prompt\<close>; \<^verbatim>\<open>input\<close>), the first
  non-empty result taken, and \<open>NoContentFound\<close> when there is none.
\<close>

definition spec_rules :: "(string \<times> json) list \<Rightarrow> json list" where
  "spec_rules params =
     [(case dict_get params ''message'' (JObj []) of
         JObj m \<Rightarrow> (case dict_get m ''parts'' (JArr []) of JArr ps \<Rightarrow> scan_parts ps | _ \<Rightarrow> JStr [])
       | _ \<Rightarrow> JStr []),
      (case dict_get params ''message'' (JObj []) of
         JObj m \<Rightarrow> py_or (dict_get m ''text'' (JStr [])) (dict_get m ''content'' (JStr []))
       | _ \<Rightarrow> JStr []),
      py_or (py_or (dict_get params ''text'' (JStr [])) (dict_get params ''content'' (JStr [])))
            (dict_get params ''query'' (JStr [])),
      dict_get params ''prompt'' (JStr []),
      dict_get params ''input'' (JStr [])]"

definition spec_extract :: "(string \<times> json) list \<Rightarrow> error + json" where
  "spec_extract params =
     (case filter truthy (spec_rules params) of [] \<Rightarrow> Inl NoContentFound | v # vs \<Rightarrow> Inr v)"

section \<open>Example inputs\<close>

text \<open>
  Environments that differ in the graph: one that answers \<^verbatim>\<open>"100"\<close>, one that raises
  an \<^verbatim>\<open>Exception\<close> with the message \<^verbatim>\<open>"timeout"\<close>, one whose result ends with an
  \<^verbatim>\<open>AIMessage\<close> of empty content, one whose call is cancelled
  (\<^verbatim>\<open>asyncio.CancelledError\<close>, whose \<^verbatim>\<open>str\<close> is empty), and one that answers with the
  list of content blocks \<^verbatim>\<open>[{"type": "text", "text": "100"}]\<close>.
\<close>

definition echo_env :: env where
  "echo_env =
     \<lparr>uuid_task = ''6f1c'', uuid_session = ''9a2e'',
      t_created = ''T0'', t_working = ''T1'', t_final = ''T2'',
      executor = (\<lambda>conv. Inr (conv @ [AIMessage ''100''])),
      part_error = (\<lambda>bs. ''1 validation error for Part'')\<rparr>"

definition failing_env :: env where
  "failing_env = echo_env\<lparr>executor := (\<lambda>conv. Inl (PyException ''timeout''))\<rparr>"

definition cancelled_env :: env where
  "cancelled_env = echo_env\<lparr>executor := (\<lambda>conv. Inl (PyBaseException []))\<rparr>"

definition blocks_env :: env where
  "blocks_env =
     echo_env\<lparr>executor :=
       (\<lambda>conv. Inr (conv @ [AIMessageBlocks [JObj [(''type'', JStr ''text''),
                                                     (''text'', JStr ''100'')]]]))\<rparr>"

definition silent_env :: env where
  "silent_env = echo_env\<lparr>executor := (\<lambda>conv. Inr (conv @ [AIMessage []]))\<rparr>"

text \<open>
  \<^verbatim>\<open>{"message": {"role": "user", "parts": [{"type": "text", "text": "Calculate 25 * 4"}]}}\<close>,
  without an id and with the id \<^verbatim>\<open>"t1"\<close>.
\<close>

definition calc_params :: "(string \<times> json) list" where
  "calc_params =
     [(''message'', JObj [(''role'', JStr ''user''),
                          (''parts'', JArr [JObj [(''type'', JStr ''text''),
                                                  (''text'', JStr ''Calculate 25 * 4'')]])])]"

definition calc_params_t1 :: "(string \<times> json) list" where
  "calc_params_t1 = (''id'', JStr ''t1'') # calc_params"

text \<open>A store with one task, completed earlier, under \<^verbatim>\<open>"t1"\<close>.\<close>

definition done_task :: Task where
  "done_task =
     \<lparr>task_id = ''t1'', sessionId = Some ''s1'',
      status = \<lparr>state = COMPLETED, message = Some (text_message ''agent'' ''4''),
                timestamp = ''T''\<rparr>,
      history = [text_message ''user'' ''2 + 2'', text_message ''agent'' ''4''],
      artifacts = [response_artifact ''4''], metadata = []\<rparr>"

definition one_store :: store where
  "one_store = [''t1'' \<mapsto> done_task]"

text \<open>
  The store after one successful submission with the id \<^verbatim>\<open>"t1"\<close> to the empty store,
  the task a second such submission returns, and the task a submission to the empty
  store returns when the graph raises.
\<close>

definition first_store :: store where
  "first_store = snd (handle_task_send echo_env Map.empty calc_params_t1)"

definition twice_task :: Task where
  "twice_task =
     \<lparr>task_id = ''t1'', sessionId = Some ''9a2e'',
      status = \<lparr>state = COMPLETED, message = Some (text_message ''agent'' ''100''),
                timestamp = ''T2''\<rparr>,
      history = [text_message ''user'' ''Calculate 25 * 4'', text_message ''agent'' ''100'',
                 text_message ''user'' ''Calculate 25 * 4'', text_message ''agent'' ''100''],
      artifacts = [response_artifact ''100'', response_artifact ''100''], metadata = []\<rparr>"

definition failed_task :: Task where
  "failed_task =
     \<lparr>task_id = ''t1'', sessionId = Some ''9a2e'',
      status = \<lparr>state = FAILED, message = Some (text_message ''agent'' ''Error: timeout''),
                timestamp = ''T2''\<rparr>,
      history = [text_message ''user'' ''Calculate 25 * 4''],
      artifacts = [], metadata = []\<rparr>"

text \<open>
  The task in the store after a submission to the empty store whose call of the graph was
  cancelled, and the task such a submission returns when the graph answers with a list of
  content blocks.
\<close>

definition working_only_task :: Task where
  "working_only_task =
     \<lparr>task_id = ''t1'', sessionId = Some ''9a2e'',
      status = \<lparr>state = WORKING, message = None, timestamp = ''T1''\<rparr>,
      history = [text_message ''user'' ''Calculate 25 * 4''],
      artifacts = [], metadata = []\<rparr>"

definition blocks_failed_task :: Task where
  "blocks_failed_task =
     \<lparr>task_id = ''t1'', sessionId = Some ''9a2e'',
      status = \<lparr>state = FAILED,
                message = Some (text_message ''agent'' ''Error: 1 validation error for Part''),
                timestamp = ''T2''\<rparr>,
      history = [text_message ''user'' ''Calculate 25 * 4''],
      artifacts = [], metadata = []\<rparr>"

text \<open>The task the first of these submissions returns.\<close>

definition once_task :: Task where
  "once_task =
     \<lparr>task_id = ''t1'', sessionId = Some ''9a2e'',
      status = \<lparr>state = COMPLETED, message = Some (text_message ''agent'' ''100''),
                timestamp = ''T2''\<rparr>,
      history = [text_message ''user'' ''Calculate 25 * 4'', text_message ''agent'' ''100''],
      artifacts = [response_artifact ''100''], metadata = []\<rparr>"




text \<open>
  The store after a submission with the id \<^verbatim>\<open>"t1"\<close> to the empty store that the graph
  answers with empty content.
\<close>

definition silent_store :: store where
  "silent_store = snd (handle_task_send silent_env Map.empty calc_params_t1)"

section \<open>How the phases of a submission behave\<close>

lemma resolve_task_Inr:
  assumes "resolve_task e tasks tv sv = Inr (tid, task, tasks1)"
  shows "tv = JStr tid \<and>
         ((tasks tid = Some task \<and> tasks1 = tasks) \<or>
          (tasks tid = None \<and> (\<exists>sid. sv = JStr sid \<and> task = new_task tid sid (t_created e)) \<and>
           tasks1 = tasks(tid \<mapsto> task)))"
  using assms
  by (auto simp: resolve_task_def Let_def split: json.splits option.splits)

lemma resolve_task_history:
  assumes "resolve_task e tasks tv sv = Inr (tid, task, tasks1)"
  shows "history task = old_history tasks tid" and "artifacts task = old_artifacts tasks tid"
  using resolve_task_Inr [OF assms]
  by (auto simp: old_history_def old_artifacts_def new_task_def)

lemma add_user_message_Inr:
  assumes "add_user_message e task u = Inr task1"
  shows "\<exists>txt. u = JStr txt \<and>
           task1 = task\<lparr>history := history task @ [text_message ''user'' txt],
                        status := \<lparr>state = WORKING, message = None, timestamp = t_working e\<rparr>\<rparr>"
  using assms by (auto simp: add_user_message_def split: json.splits)

lemma open_task_Inr:
  assumes "open_task e tasks params = Inr (tid, task1, tasks1)"
  shows "\<exists>txt. extract_user_text params = Inr (JStr txt) \<and>
           request_task_id e params = JStr tid \<and>
           tasks1 = tasks(tid \<mapsto> task1) \<and>
           history task1 = old_history tasks tid @ [text_message ''user'' txt] \<and>
           artifacts task1 = old_artifacts tasks tid \<and>
           state (status task1) = WORKING"
proof -
  from assms obtain u task tasks0 where
    u: "extract_user_text params = Inr u" and
    r: "resolve_task e tasks (request_task_id e params) (request_session_id e params) = Inr (tid, task, tasks0)" and
    a: "add_user_message e task u = Inr task1" and
    s: "tasks1 = tasks0(tid \<mapsto> task1)"
    by (auto simp: open_task_def split: sum.splits prod.splits)
  from add_user_message_Inr [OF a] obtain w where
    ut: "u = JStr w" and
    t1: "task1 = task\<lparr>history := history task @ [text_message ''user'' w],
                      status := \<lparr>state = WORKING, message = None, timestamp = t_working e\<rparr>\<rparr>"
    by blast
  from resolve_task_Inr [OF r] have tv: "request_task_id e params = JStr tid"
    and st: "tasks0 = tasks \<or> tasks0 = tasks(tid \<mapsto> task)" by auto
  from st s have "tasks1 = tasks(tid \<mapsto> task1)" by auto
  moreover from t1 resolve_task_history [OF r]
  have "history task1 = old_history tasks tid @ [text_message ''user'' w]"
    "artifacts task1 = old_artifacts tasks tid" "state (status task1) = WORKING" by simp_all
  ultimately show ?thesis using u ut tv by blast
qed

lemma open_task_Inl:
  assumes "open_task e tasks params = Inl (err, tasks')"
  shows "tasks' = tasks \<or>
         (err = ValidationError \<and>
          (\<exists>tid sid. tasks tid = None \<and> tasks' = tasks(tid \<mapsto> new_task tid sid (t_created e))))"
proof (cases "extract_user_text params")
  case (Inl a)
  with assms show ?thesis by (simp add: open_task_def)
next
  case (Inr u)
  show ?thesis
  proof (cases "resolve_task e tasks (request_task_id e params) (request_session_id e params)")
    case (Inl a)
    with Inr assms show ?thesis by (simp add: open_task_def)
  next
    case r: (Inr x)
    obtain tid task tasks0 where x: "x = (tid, task, tasks0)" by (cases x) auto
    from r x Inr assms have a: "add_user_message e task u = Inl err" and s: "tasks' = tasks0"
      by (auto simp: open_task_def split: sum.splits)
    from a have "err = ValidationError" by (auto simp: add_user_message_def split: json.splits)
    with resolve_task_Inr [OF r [unfolded x]] s show ?thesis by auto
  qed
qed

lemma open_task_NoContentFound:
  "open_task e tasks params = Inl (NoContentFound, tasks') \<Longrightarrow> tasks' = tasks"
  using open_task_Inl [of e tasks params NoContentFound tasks'] by auto

lemma finish_run_text:
  "response_text result = TextReply rt \<Longrightarrow>
   finish_run e tasks tid task (Inr result) =
     (Inr (complete_task e task rt), tasks(tid \<mapsto> complete_task e task rt))"
  by (simp add: finish_run_def)

lemma finish_run_blocks:
  "response_text result = BlocksReply bs \<Longrightarrow>
   finish_run e tasks tid task (Inr result) =
     (Inr (fail_task e task (part_error e bs)), tasks(tid \<mapsto> fail_task e task (part_error e bs)))"
  by (simp add: finish_run_def)

lemma finish_run_exception:
  "finish_run e tasks tid task (Inl (PyException err)) =
     (Inr (fail_task e task err), tasks(tid \<mapsto> fail_task e task err))"
  by (simp add: finish_run_def)

lemma finish_run_base:
  "finish_run e tasks tid task (Inl (PyBaseException err)) = (Inl (Uncaught err), tasks)"
  by (simp add: finish_run_def)

lemma finish_run_cases:
  "(\<exists>rt. finish_run e tasks tid task outcome =
          (Inr (complete_task e task rt), tasks(tid \<mapsto> complete_task e task rt))) \<or>
   (\<exists>err. finish_run e tasks tid task outcome =
          (Inr (fail_task e task err), tasks(tid \<mapsto> fail_task e task err))) \<or>
   (\<exists>err. finish_run e tasks tid task outcome = (Inl (Uncaught err), tasks))"
  by (auto simp: finish_run_def split: sum.splits raised.splits reply.splits)

lemma handle_task_send_open:
  "open_task e tasks params = Inr (tid, task1, tasks1) \<Longrightarrow>
   handle_task_send e tasks params =
     finish_run e tasks1 tid task1 (executor e (langchain_messages (history task1)))"
  by (simp add: handle_task_send_def)

lemma is_str_conv: "is_str v \<longleftrightarrow> (\<exists>s. v = JStr s)"
  by (cases v) auto

lemma prior_task_history:
  "history (prior_task e tasks params tid) = old_history tasks tid"
  "artifacts (prior_task e tasks params tid) = old_artifacts tasks tid"
  by (auto simp: prior_task_def old_history_def old_artifacts_def new_task_def split: option.splits)

lemma open_task_normalized:
  assumes "normalized e tasks params tid txt"
  shows "open_task e tasks params =
           Inr (tid, working_task e tasks params tid txt,
                tasks(tid \<mapsto> working_task e tasks params tid txt))"
proof (cases "tasks tid")
  case None
  with assms obtain sid where "request_session_id e params = JStr sid"
    by (auto simp: normalized_def is_str_conv)
  with None assms show ?thesis
    by (simp add: normalized_def open_task_def resolve_task_def add_user_message_def
        working_task_def prior_task_def old_history_def new_task_def Let_def)
next
  case (Some t)
  with assms show ?thesis
    by (simp add: normalized_def open_task_def resolve_task_def add_user_message_def
        working_task_def prior_task_def old_history_def)
qed

lemma open_task_Inr_normalized:
  assumes "open_task e tasks params = Inr (tid, task1, tasks1)"
  shows "\<exists>txt. normalized e tasks params tid txt"
proof -
  from assms obtain u task tasks0 where
    u: "extract_user_text params = Inr u" and
    r: "resolve_task e tasks (request_task_id e params) (request_session_id e params) = Inr (tid, task, tasks0)" and
    a: "add_user_message e task u = Inr task1"
    by (auto simp: open_task_def split: sum.splits prod.splits)
  from add_user_message_Inr [OF a] obtain w where "u = JStr w" by blast
  with u resolve_task_Inr [OF r] show ?thesis
    by (auto simp: normalized_def)
qed

lemma handle_task_send_normalized:
  assumes "normalized e tasks params tid txt"
  shows "handle_task_send e tasks params =
           finish_run e (tasks(tid \<mapsto> working_task e tasks params tid txt)) tid
             (working_task e tasks params tid txt)
             (executor e (langchain_messages (old_history tasks tid @ [text_message ''user'' txt])))"
  using open_task_normalized [OF assms]
  by (simp add: handle_task_send_def working_task_def)

lemma handle_task_send_Inr:
  assumes "handle_task_send e tasks params = (Inr t, tasks')"
  shows "\<exists>tid txt. normalized e tasks params tid txt"
proof (cases "open_task e tasks params")
  case (Inl a)
  with assms show ?thesis by (cases a) (simp add: handle_task_send_def)
next
  case (Inr b)
  then show ?thesis using open_task_Inr_normalized [of e tasks params "fst b" "fst (snd b)" "snd (snd b)"]
    by auto
qed

lemma handle_task_send_Inl:
  assumes "handle_task_send e tasks params = (Inl err, tasks')"
  shows "open_task e tasks params = Inl (err, tasks') \<or>
         (\<exists>tid w s. normalized e tasks params tid w \<and> err = Uncaught s \<and>
            tasks' = tasks(tid \<mapsto> working_task e tasks params tid w))"
proof (cases "open_task e tasks params")
  case (Inl a)
  with assms show ?thesis by (cases a) (simp add: handle_task_send_def)
next
  case (Inr b)
  obtain tid task1 tasks1 where b: "b = (tid, task1, tasks1)" by (cases b)
  from open_task_Inr_normalized [OF Inr [unfolded b]] obtain w where
    n: "normalized e tasks params tid w" by blast
  from assms
    finish_run_cases [of e "tasks(tid \<mapsto> working_task e tasks params tid w)" tid
      "working_task e tasks params tid w"
      "executor e (langchain_messages (old_history tasks tid @ [text_message ''user'' w]))"]
  have "err = Uncaught (case err of Uncaught s \<Rightarrow> s | _ \<Rightarrow> []) \<and>
        tasks' = tasks(tid \<mapsto> working_task e tasks params tid w)"
    unfolding handle_task_send_normalized [OF n] by auto
  with n show ?thesis by blast
qed

lemma handle_task_send_NoContentFound:
  assumes "handle_task_send e tasks params = (Inl NoContentFound, tasks')"
  shows "tasks' = tasks"
  using handle_task_send_Inl [OF assms] open_task_NoContentFound [of e tasks params tasks']
  by auto



lemmas eval_defs =
  handle_task_send_def open_task_def extract_user_text_def message_text_def dict_get_def py_or_def
  request_task_id_def request_session_id_def resolve_task_def add_user_message_def finish_run_def
  response_text_def complete_task_def fail_task_def new_task_def Let_def
  calc_params_t1_def calc_params_def echo_env_def failing_env_def silent_env_def
  cancelled_env_def blocks_env_def

lemma first_store_eq:
  "first_store =
     [''t1'' \<mapsto>
        \<lparr>task_id = ''t1'', sessionId = Some ''9a2e'',
         status = \<lparr>state = COMPLETED, message = Some (text_message ''agent'' ''100''),
                   timestamp = ''T2''\<rparr>,
         history = [text_message ''user'' ''Calculate 25 * 4'', text_message ''agent'' ''100''],
         artifacts = [response_artifact ''100''], metadata = []\<rparr>]"
  by (simp add: first_store_def eval_defs text_message_def text_part_def)

lemma handle_task_send_Inr_cases:
  assumes "handle_task_send e tasks params = (Inr t, tasks')"
  shows "\<exists>tid txt. normalized e tasks params tid txt \<and> tasks' = tasks(tid \<mapsto> t) \<and>
           ((state (status t) = COMPLETED \<and>
             (\<exists>rt. t = complete_task e (working_task e tasks params tid txt) rt \<and>
                history t = old_history tasks tid @
                  [text_message ''user'' txt, text_message ''agent'' rt] \<and>
                artifacts t = old_artifacts tasks tid @ [response_artifact rt])) \<or>
            (state (status t) = FAILED \<and>
             (\<exists>err. t = fail_task e (working_task e tasks params tid txt) err) \<and>
             history t = old_history tasks tid @ [text_message ''user'' txt] \<and>
             artifacts t = old_artifacts tasks tid))"
proof -
  from handle_task_send_Inr [OF assms] obtain tid w where n: "normalized e tasks params tid w"
    by blast
  from assms
    finish_run_cases [of e "tasks(tid \<mapsto> working_task e tasks params tid w)" tid
      "working_task e tasks params tid w"
      "executor e (langchain_messages (old_history tasks tid @ [text_message ''user'' w]))"]
  have "tasks' = tasks(tid \<mapsto> t) \<and>
        ((\<exists>rt. t = complete_task e (working_task e tasks params tid w) rt) \<or>
         (\<exists>err. t = fail_task e (working_task e tasks params tid w) err))"
    unfolding handle_task_send_normalized [OF n] by auto
  with n show ?thesis
    by (intro exI [of _ tid] exI [of _ w])
       (auto simp: complete_task_def fail_task_def working_task_def prior_task_history)
qed

lemma handle_task_send_keeps:
  assumes "tasks k = Some t0"
  shows "\<exists>t1. snd (handle_task_send e tasks params) k = Some t1 \<and>
           prefix (history t0) (history t1) \<and> prefix (artifacts t0) (artifacts t1) \<and>
           task_id t1 = task_id t0"
proof (cases "open_task e tasks params")
  case (Inl a)
  obtain err tasks' where a: "a = (err, tasks')" by (cases a)
  from open_task_Inl [OF Inl [unfolded a]] assms have "tasks' k = Some t0" by auto
  with Inl a show ?thesis by (simp add: handle_task_send_def)
next
  case (Inr b)
  obtain tid task1 tasks1 where b: "b = (tid, task1, tasks1)" by (cases b)
  from open_task_Inr_normalized [OF Inr [unfolded b]] obtain w where
    n: "normalized e tasks params tid w" by blast
  let ?w = "working_task e tasks params tid w"
  have w: "k = tid \<Longrightarrow> prefix (history t0) (history ?w) \<and> artifacts ?w = artifacts t0 \<and>
             task_id ?w = task_id t0"
    using assms by (simp add: working_task_def prior_task_def old_history_def)
  from finish_run_cases [of e "tasks(tid \<mapsto> ?w)" tid ?w
      "executor e (langchain_messages (old_history tasks tid @ [text_message ''user'' w]))"]
  show ?thesis
  proof (elim disjE exE)
    fix rt
    assume "finish_run e (tasks(tid \<mapsto> ?w)) tid ?w
              (executor e (langchain_messages (old_history tasks tid @ [text_message ''user'' w])))
            = (Inr (complete_task e ?w rt), (tasks(tid \<mapsto> ?w))(tid \<mapsto> complete_task e ?w rt))"
    with assms w show ?thesis
      by (cases "k = tid")
         (auto simp: handle_task_send_normalized [OF n] complete_task_def)
  next
    fix err
    assume "finish_run e (tasks(tid \<mapsto> ?w)) tid ?w
              (executor e (langchain_messages (old_history tasks tid @ [text_message ''user'' w])))
            = (Inr (fail_task e ?w err), (tasks(tid \<mapsto> ?w))(tid \<mapsto> fail_task e ?w err))"
    with assms w show ?thesis
      by (cases "k = tid")
         (auto simp: handle_task_send_normalized [OF n] fail_task_def)
  next
    fix err
    assume "finish_run e (tasks(tid \<mapsto> ?w)) tid ?w
              (executor e (langchain_messages (old_history tasks tid @ [text_message ''user'' w])))
            = (Inl (Uncaught err), tasks(tid \<mapsto> ?w))"
    with assms w show ?thesis
      by (cases "k = tid")
         (auto simp: handle_task_send_normalized [OF n])
  qed
qed

lemma lookup_task_Inr:
  "lookup_task tasks params = Inr (tid, task) \<Longrightarrow>
     dict_get params ''id'' JNull = JStr tid \<and> tid \<noteq> [] \<and> tasks tid = Some task"
  by (auto simp: lookup_task_def Let_def split: if_splits json.splits option.splits)

lemma handle_task_cancel_keeps:
  assumes "tasks k = Some t0"
  shows "\<exists>t1. snd (handle_task_cancel now tasks params) k = Some t1 \<and>
           history t1 = history t0 \<and> artifacts t1 = artifacts t0 \<and> task_id t1 = task_id t0"
proof (cases "lookup_task tasks params")
  case (Inl a)
  with assms show ?thesis by (simp add: handle_task_cancel_def)
next
  case (Inr b)
  obtain tid task where b: "b = (tid, task)" by (cases b)
  from lookup_task_Inr [OF Inr [unfolded b]] assms Inr b show ?thesis
    by (auto simp: handle_task_cancel_def Let_def)
qed

lemma first_store_once: "first_store = [''t1'' \<mapsto> once_task]"
  by (simp add: first_store_eq once_task_def)

lemma store_inv_upd:
  "store_inv tasks \<Longrightarrow> task_id t = k \<Longrightarrow> k \<noteq> [] \<Longrightarrow> store_inv (tasks(k \<mapsto> t))"
  by (auto simp: store_inv_def)

lemma request_task_id_nonempty:
  assumes "request_task_id e params = JStr tid" and "uuid_task e \<noteq> []"
  shows "tid \<noteq> []"
proof (cases "truthy (dict_get params ''id'' JNull)")
  case True
  with assms(1) show ?thesis by (auto simp: request_task_id_def py_or_def)
next
  case False
  with assms show ?thesis by (auto simp: request_task_id_def py_or_def)
qed

lemma working_task_id:
  "store_inv tasks \<Longrightarrow> task_id (working_task e tasks params tid txt) = tid"
  by (auto simp: working_task_def prior_task_def new_task_def store_inv_def split: option.splits)

lemma handle_task_send_inv:
  assumes "store_inv tasks" and "uuid_task e \<noteq> []"
  shows "store_inv (snd (handle_task_send e tasks params))"
proof (cases "open_task e tasks params")
  case (Inl a)
  obtain err tasks' where a: "a = (err, tasks')" by (cases a)
  from open_task_Inl [OF Inl [unfolded a]]
  have "tasks' = tasks \<or>
        (\<exists>tid sid. tasks tid = None \<and> tasks' = tasks(tid \<mapsto> new_task tid sid (t_created e)) \<and>
            request_task_id e params = JStr tid)"
  proof
    assume "tasks' = tasks" then show ?thesis by simp
  next
    assume "err = ValidationError \<and>
          (\<exists>tid sid. tasks tid = None \<and> tasks' = tasks(tid \<mapsto> new_task tid sid (t_created e)))"
    then obtain tid sid where n: "tasks tid = None"
      and s: "tasks' = tasks(tid \<mapsto> new_task tid sid (t_created e))" by blast
    show ?thesis
    proof (cases "tasks' = tasks")
      case True then show ?thesis by simp
    next
      case False
      from Inl a False obtain u tid' task tasks0 where
        r: "resolve_task e tasks (request_task_id e params) (request_session_id e params) = Inr (tid', task, tasks0)"
        and t0: "tasks' = tasks0"
        by (auto simp: open_task_def split: sum.splits prod.splits)
      from resolve_task_Inr [OF r] t0 False
      have "request_task_id e params = JStr tid'" "tasks tid' = None"
        "\<exists>sid. tasks' = tasks(tid' \<mapsto> new_task tid' sid (t_created e))"
        by auto
      then show ?thesis by blast
    qed
  qed
  then show ?thesis
  proof
    assume "tasks' = tasks"
    with Inl a assms show ?thesis by (simp add: handle_task_send_def)
  next
    assume "\<exists>tid sid. tasks tid = None \<and> tasks' = tasks(tid \<mapsto> new_task tid sid (t_created e)) \<and>
            request_task_id e params = JStr tid"
    then obtain tid sid where s: "tasks' = tasks(tid \<mapsto> new_task tid sid (t_created e))"
      and q: "request_task_id e params = JStr tid" by blast
    from request_task_id_nonempty [OF q assms(2)] have "tid \<noteq> []" .
    with s assms(1) have "store_inv tasks'"
      by (auto intro!: store_inv_upd simp: new_task_def)
    with Inl a show ?thesis by (simp add: handle_task_send_def)
  qed
next
  case (Inr b)
  obtain tid task1 tasks1 where b: "b = (tid, task1, tasks1)" by (cases b)
  from open_task_Inr_normalized [OF Inr [unfolded b]] obtain w where
    n: "normalized e tasks params tid w" by blast
  then have q: "request_task_id e params = JStr tid" by (simp add: normalized_def)
  from request_task_id_nonempty [OF q assms(2)] have ne: "tid \<noteq> []" .
  let ?w = "working_task e tasks params tid w"
  from working_task_id [OF assms(1), of e params tid w] ne assms(1)
  have i: "store_inv (tasks(tid \<mapsto> ?w))" by (simp add: store_inv_upd)
  from working_task_id [OF assms(1), of e params tid w]
  have j: "task_id (complete_task e ?w rt) = tid" "task_id (fail_task e ?w err) = tid" for rt err
    by (simp_all add: complete_task_def fail_task_def)
  from finish_run_cases [of e "tasks(tid \<mapsto> ?w)" tid ?w
      "executor e (langchain_messages (old_history tasks tid @ [text_message ''user'' w]))"]
  show ?thesis
    using i j ne assms(1)
    by (auto simp: handle_task_send_normalized [OF n] intro!: store_inv_upd)
qed


lemma store_inv_empty: "store_inv Map.empty"
  by (simp add: store_inv_def)

lemma store_inv_first_store: "store_inv first_store"
  unfolding first_store_def
  by (rule handle_task_send_inv) (simp_all add: store_inv_empty echo_env_def)


lemma replace_bearer_id: "\<not> sublist ''Bearer '' s \<Longrightarrow> replace_bearer s = s"
proof (induction s)
  case Nil
  then show ?case by simp
next
  case (Cons c cs)
  from Cons.prems have "\<not> prefix ''Bearer '' (c # cs)" and "\<not> sublist ''Bearer '' cs"
    by (simp_all add: sublist_Cons_right)
  with Cons.IH show ?case by auto
qed

lemma replace_bearer_prefix: "replace_bearer (''Bearer '' @ s) = replace_bearer s"
  by simp

lemma verify_api_key_token:
  assumes "key \<noteq> []" and "\<not> sublist ''Bearer '' tok" and "h = tok \<or> h = ''Bearer '' @ tok"
    and "h \<noteq> []"
  shows "verify_api_key key (Some h) =
           (if strip tok = key then Inr True else Inl (HTTPException 401 ''Invalid API key''))"
proof -
  from assms(2,3) have "replace_bearer h = tok"
    using replace_bearer_id [of tok] replace_bearer_prefix [of tok] by auto
  with assms(1,4) show ?thesis by (simp add: verify_api_key_def)
qed

lemma strip_Nil: "strip [] = []"
  by (simp add: strip_def)

lemma no_bearer_demo: "\<not> sublist ''Bearer '' '' demo-api-key-12345''"
  by (simp add: sublist_Cons_right)

lemma no_bearer_wrong: "\<not> sublist ''Bearer '' ''wrong-key''"
  by (simp add: sublist_Cons_right)

lemma part_turns_texts:
  "part_turns r ps = map (turn r) (filter (\<lambda>t. t \<noteq> []) (List.map_filter ptext ps))"
  by (induction ps) (auto simp: turn_def List.map_filter_simps split: option.splits)

lemma langchain_messages_concat:
  "langchain_messages h = concat (map (\<lambda>m. map (turn (role m)) (texts m)) h)"
  by (induction h) (simp_all add: part_turns_texts texts_def)

lemma langchain_messages_append:
  "langchain_messages (h @ h') = langchain_messages h @ langchain_messages h'"
  by (induction h) simp_all

lemma normalized_text_nonempty:
  assumes "normalized e tasks params tid txt"
  shows "txt \<noteq> []"
proof -
  from assms have x: "extract_user_text params = Inr (JStr txt)" by (simp add: normalized_def)
  then have "truthy (JStr txt)"
    by (auto simp: extract_user_text_def Let_def split: sum.splits if_splits)
  then show ?thesis by simp
qed

lemma one_text_turns:
  assumes "one_text m"
  shows "\<exists>t. part_turns (role m) (parts m) = [turn (role m) t] \<and> first_text m = Some t"
proof -
  from assms obtain p t where "parts m = [p]" "ptext p = Some t" "t \<noteq> []"
    by (auto simp: one_text_def split: list.splits option.splits)
  then show ?thesis by (simp add: turn_def first_text_def List.map_filter_simps)
qed

lemma langchain_messages_single:
  "list_all one_text h \<Longrightarrow> langchain_messages h = spec_conversation h"
proof (induction h)
  case Nil
  then show ?case by (simp add: spec_conversation_def List.map_filter_simps)
next
  case (Cons m h)
  then have "one_text m" and "langchain_messages h = spec_conversation h" by simp_all
  with one_text_turns [of m] show ?case
    by (auto simp: spec_conversation_def List.map_filter_simps)
qed

lemma spec_conversation_length:
  "list_all one_text h \<Longrightarrow> length (spec_conversation h) = length h"
proof (induction h)
  case Nil
  then show ?case by (simp add: spec_conversation_def List.map_filter_simps)
next
  case (Cons m h)
  then have "one_text m" and "length (spec_conversation h) = length h" by simp_all
  with one_text_turns [of m] show ?case
    by (auto simp: spec_conversation_def List.map_filter_simps)
qed

lemma silent_store_eq:
  "silent_store =
     [''t1'' \<mapsto>
        \<lparr>task_id = ''t1'', sessionId = Some ''9a2e'',
         status = \<lparr>state = COMPLETED, message = Some (text_message ''agent'' []),
                   timestamp = ''T2''\<rparr>,
         history = [text_message ''user'' ''Calculate 25 * 4'', text_message ''agent'' []],
         artifacts = [response_artifact []], metadata = []\<rparr>]"
  by (simp add: silent_store_def eval_defs text_message_def text_part_def)

text \<open>
  On a well-typed payload the code's extraction is the specification's: the rules are
  tried in the stated order and the first truthy value wins.
\<close>

lemma extract_user_text_priority:
  assumes "well_typed params"
  shows "extract_user_text params = spec_extract params"
proof (cases "dict_get params ''message'' (JObj [])")
  case (JObj m)
  with assms obtain ps where ps: "dict_get m ''parts'' (JArr []) = JArr ps"
    by (auto simp: well_typed_def split: json.splits)
  show ?thesis
  proof (cases "m = []")
    case True
    with JObj ps have "ps = []" by (simp add: dict_get_def)
    with True JObj ps show ?thesis
      by (simp add: extract_user_text_def message_text_def spec_extract_def spec_rules_def
          Let_def py_or_def dict_get_def)
  next
    case False
    with JObj ps show ?thesis
      by (simp add: extract_user_text_def message_text_def spec_extract_def spec_rules_def
          Let_def)
  qed
next
  case JNull
  then show ?thesis
    by (simp add: extract_user_text_def message_text_def spec_extract_def spec_rules_def Let_def)
next
  case (JBool b)
  with assms show ?thesis
    by (simp add: well_typed_def extract_user_text_def message_text_def spec_extract_def
        spec_rules_def Let_def)
next
  case (JNum n)
  with assms show ?thesis
    by (simp add: well_typed_def extract_user_text_def message_text_def spec_extract_def
        spec_rules_def Let_def)
next
  case (JStr s)
  with assms show ?thesis
    by (simp add: well_typed_def extract_user_text_def message_text_def spec_extract_def
        spec_rules_def Let_def)
next
  case (JArr xs)
  with assms show ?thesis
    by (simp add: well_typed_def extract_user_text_def message_text_def spec_extract_def
        spec_rules_def Let_def)
qed

text \<open>
  Two more payloads outside the well-typed ones: \<^verbatim>\<open>parts\<close> that cannot be iterated, and a
  truthy value that is not a string, which is rejected only after the new task is stored.
\<close>

lemma other_raises:
  "handle_task_send echo_env Map.empty [(''message'', JObj [(''parts'', JNum 5)])]
     = (Inl TypeError, Map.empty) \<and>
   handle_task_send echo_env Map.empty [(''id'', JStr ''t1''), (''prompt'', JNum 5)]
     = (Inl ValidationError, [''t1'' \<mapsto> new_task ''t1'' ''9a2e'' ''T0''])"
  by (simp add: eval_defs)

section \<open>Properties of submit, query and cancel\<close>

text \<open>
  Claim C7. When \<^verbatim>\<open>handle_task_send\<close> raises the "No text content found" error, the
  store is as it was: the error is raised before the store is touched. It is raised
  whenever no rule of the extraction gives a truthy value.
\<close>

theorem no_content_leaves_store:
  "(extract_user_text params = Inl NoContentFound \<longrightarrow>
      handle_task_send e tasks params = (Inl NoContentFound, tasks)) \<and>
   (fst (handle_task_send e tasks params) = Inl NoContentFound \<longrightarrow>
      snd (handle_task_send e tasks params) = tasks)"
proof (intro conjI impI)
  assume "extract_user_text params = Inl NoContentFound"
  then show "handle_task_send e tasks params = (Inl NoContentFound, tasks)"
    by (simp add: handle_task_send_def open_task_def)
next
  assume a: "fst (handle_task_send e tasks params) = Inl NoContentFound"
  obtain r s where rs: "handle_task_send e tasks params = (r, s)" by (cases "handle_task_send e tasks params")
  with a have "handle_task_send e tasks params = (Inl NoContentFound, s)" by simp
  from handle_task_send_NoContentFound [OF this] rs
  show "snd (handle_task_send e tasks params) = tasks" by simp
qed

theorem no_content_leaves_store_witness:
  "extract_user_text [(''id'', JStr ''t1''), (''message'', JObj [(''role'', JStr ''user'')])]
     = Inl NoContentFound \<and>
   fst (handle_task_send echo_env one_store
          [(''id'', JStr ''t1''), (''message'', JObj [(''role'', JStr ''user'')])])
     = Inl NoContentFound \<and>
   snd (handle_task_send echo_env one_store
          [(''id'', JStr ''t1''), (''message'', JObj [(''role'', JStr ''user'')])])
     = one_store"
proof -
  have x: "extract_user_text [(''id'', JStr ''t1''), (''message'', JObj [(''role'', JStr ''user'')])]
             = Inl NoContentFound"
    by (simp add: extract_user_text_def message_text_def dict_get_def py_or_def)
  from x no_content_leaves_store
         [of "[(''id'', JStr ''t1''), (''message'', JObj [(''role'', JStr ''user'')])]"
             echo_env one_store]
  show ?thesis by simp
qed

text \<open>
  Claim C3, amended. When a normalized request's call of the graph raises an exception of
  class \<^verbatim>\<open>Exception\<close>, \<^verbatim>\<open>handle_task_send\<close> returns the task (no exception leaves it),
  the task's state is \<^verbatim>\<open>FAILED\<close>, and the status carries an agent message with the text
  \<^verbatim>\<open>"Error: "\<close> followed by the exception's description. An exception outside that class
  (\<^verbatim>\<open>asyncio.CancelledError\<close>) is not caught by \<^verbatim>\<open>except Exception\<close>: it leaves
  \<^verbatim>\<open>handle_task_send\<close>, and the task stays in the store with the user message appended
  and the state \<^verbatim>\<open>WORKING\<close>.
\<close>

theorem executor_failure_captured:
  "(normalized e tasks params tid txt \<and>
    executor e (langchain_messages (old_history tasks tid @ [text_message ''user'' txt]))
      = Inl (PyException err) \<longrightarrow>
      (\<exists>t. handle_task_send e tasks params = (Inr t, tasks(tid \<mapsto> t)) \<and>
           state (status t) = FAILED \<and>
           message (status t) = Some (text_message ''agent'' (''Error: '' @ err)))) \<and>
   (normalized ec sc pc kc wc \<and>
    executor ec (langchain_messages (old_history sc kc @ [text_message ''user'' wc]))
      = Inl (PyBaseException errc) \<longrightarrow>
      handle_task_send ec sc pc
        = (Inl (Uncaught errc), sc(kc \<mapsto> working_task ec sc pc kc wc)) \<and>
      state (status (working_task ec sc pc kc wc)) = WORKING \<and>
      history (working_task ec sc pc kc wc) = old_history sc kc @ [text_message ''user'' wc])"
proof (intro conjI impI)
  assume a: "normalized e tasks params tid txt \<and>
    executor e (langchain_messages (old_history tasks tid @ [text_message ''user'' txt]))
      = Inl (PyException err)"
  then have n: "normalized e tasks params tid txt" by simp
  from a show "\<exists>t. handle_task_send e tasks params = (Inr t, tasks(tid \<mapsto> t)) \<and>
           state (status t) = FAILED \<and>
           message (status t) = Some (text_message ''agent'' (''Error: '' @ err))"
    by (simp add: handle_task_send_normalized [OF n] finish_run_exception fail_task_def)
next
  assume a: "normalized ec sc pc kc wc \<and>
    executor ec (langchain_messages (old_history sc kc @ [text_message ''user'' wc]))
      = Inl (PyBaseException errc)"
  then have n: "normalized ec sc pc kc wc" by simp
  from a show "handle_task_send ec sc pc
        = (Inl (Uncaught errc), sc(kc \<mapsto> working_task ec sc pc kc wc))"
    by (simp add: handle_task_send_normalized [OF n] finish_run_base)
  show "state (status (working_task ec sc pc kc wc)) = WORKING"
    by (simp add: working_task_def)
  show "history (working_task ec sc pc kc wc) = old_history sc kc @ [text_message ''user'' wc]"
    by (simp add: working_task_def)
qed

theorem executor_failure_captured_witness:
  "normalized failing_env one_store calc_params_t1 ''t1'' ''Calculate 25 * 4'' \<and>
   executor failing_env
     (langchain_messages (old_history one_store ''t1'' @ [text_message ''user'' ''Calculate 25 * 4'']))
     = Inl (PyException ''timeout'') \<and>
   normalized cancelled_env one_store calc_params_t1 ''t1'' ''Calculate 25 * 4'' \<and>
   executor cancelled_env
     (langchain_messages (old_history one_store ''t1'' @ [text_message ''user'' ''Calculate 25 * 4'']))
     = Inl (PyBaseException []) \<and>
   (\<exists>t. handle_task_send failing_env one_store calc_params_t1 = (Inr t, one_store(''t1'' \<mapsto> t)) \<and>
        state (status t) = FAILED \<and>
        message (status t) = Some (text_message ''agent'' ''Error: timeout'')) \<and>
   handle_task_send cancelled_env one_store calc_params_t1
     = (Inl (Uncaught []),
        one_store(''t1'' \<mapsto>
          working_task cancelled_env one_store calc_params_t1 ''t1'' ''Calculate 25 * 4'')) \<and>
   state (status (working_task cancelled_env one_store calc_params_t1 ''t1'' ''Calculate 25 * 4''))
     = WORKING"
proof -
  have n: "normalized failing_env one_store calc_params_t1 ''t1'' ''Calculate 25 * 4''"
    by (simp add: normalized_def calc_params_t1_def calc_params_def extract_user_text_def
        message_text_def dict_get_def py_or_def request_task_id_def one_store_def)
  have x: "executor failing_env
     (langchain_messages (old_history one_store ''t1'' @ [text_message ''user'' ''Calculate 25 * 4'']))
     = Inl (PyException ''timeout'')"
    by (simp add: failing_env_def)
  have nc: "normalized cancelled_env one_store calc_params_t1 ''t1'' ''Calculate 25 * 4''"
    by (simp add: normalized_def calc_params_t1_def calc_params_def extract_user_text_def
        message_text_def dict_get_def py_or_def request_task_id_def one_store_def)
  have xc: "executor cancelled_env
     (langchain_messages (old_history one_store ''t1'' @ [text_message ''user'' ''Calculate 25 * 4'']))
     = Inl (PyBaseException [])"
    by (simp add: cancelled_env_def)
  from n x nc xc
    executor_failure_captured [where e = failing_env and tasks = one_store
      and params = calc_params_t1 and tid = "''t1''" and ?txt = "''Calculate 25 * 4''"
      and err = "''timeout''" and ec = cancelled_env and sc = one_store and pc = calc_params_t1
      and kc = "''t1''" and wc = "''Calculate 25 * 4''" and errc = "[]"]
  show ?thesis by simp
qed

text \<open>
  The claim as stated has every raise of the graph captured. A cancelled call
  (\<^verbatim>\<open>asyncio.CancelledError\<close> is not an \<^verbatim>\<open>Exception\<close>) leaves \<^verbatim>\<open>handle_task_send\<close>, and
  the task, new in the store, keeps the state \<^verbatim>\<open>WORKING\<close>.
\<close>

theorem cancelled_call_counterexample:
  "normalized cancelled_env Map.empty calc_params_t1 ''t1'' ''Calculate 25 * 4'' \<and>
   executor cancelled_env
     (langchain_messages (old_history Map.empty ''t1'' @ [text_message ''user'' ''Calculate 25 * 4'']))
     = Inl (PyBaseException []) \<and>
   handle_task_send cancelled_env Map.empty calc_params_t1
     = (Inl (Uncaught []), [''t1'' \<mapsto> working_only_task]) \<and>
   state (status working_only_task) = WORKING"
proof -
  have n: "normalized cancelled_env Map.empty calc_params_t1 ''t1'' ''Calculate 25 * 4''"
    by (simp add: normalized_def calc_params_t1_def calc_params_def extract_user_text_def
        message_text_def dict_get_def py_or_def request_task_id_def request_session_id_def
        cancelled_env_def echo_env_def)
  have x: "executor cancelled_env
     (langchain_messages (old_history Map.empty ''t1'' @ [text_message ''user'' ''Calculate 25 * 4'']))
     = Inl (PyBaseException [])"
    by (simp add: cancelled_env_def)
  have h: "handle_task_send cancelled_env Map.empty calc_params_t1
     = (Inl (Uncaught []), [''t1'' \<mapsto> working_only_task])"
    by (simp add: eval_defs text_message_def text_part_def working_only_task_def)
  from n x h show ?thesis by (simp add: working_only_task_def)
qed




text \<open>
  Claim C1, amended. When a normalized request's call of the graph returns a result whose
  reply (the content of the last \<^verbatim>\<open>AIMessage\<close> with non-empty content, \<^verbatim>\<open>""\<close> when there
  is none) is a \<^verbatim>\<open>str\<close>, \<^verbatim>\<open>handle_task_send\<close> returns the task with state
  \<^verbatim>\<open>COMPLETED\<close>; the last element of the history is the agent message with the reply as
  text; exactly one artifact is appended to the task's artifacts, named \<^verbatim>\<open>"response"\<close>,
  with index 0, \<^verbatim>\<open>lastChunk\<close> true and the reply as its single text part. On a task
  created by this submission it is the only artifact; a task submitted to before keeps
  its earlier artifacts. When the reply is a list of content blocks,
  \<^verbatim>\<open>Part(type="text", text=...)\<close> rejects it inside the \<^verbatim>\<open>try\<close>: the task is returned with
  state \<^verbatim>\<open>FAILED\<close>, and nothing is appended for the agent.
\<close>

theorem successful_run:
  "(normalized e tasks params tid txt \<and>
    executor e (langchain_messages (old_history tasks tid @ [text_message ''user'' txt]))
      = Inr result \<and>
    response_text result = TextReply rt \<longrightarrow>
      (\<exists>t. handle_task_send e tasks params = (Inr t, tasks(tid \<mapsto> t)) \<and>
           state (status t) = COMPLETED \<and>
           message (status t) = Some (text_message ''agent'' rt) \<and>
           last (history t) = text_message ''agent'' rt \<and>
           history t = old_history tasks tid @
             [text_message ''user'' txt, text_message ''agent'' rt] \<and>
           artifacts t = old_artifacts tasks tid @ [response_artifact rt] \<and>
           (artifacts t = [response_artifact rt]) = (old_artifacts tasks tid = []) \<and>
           aname (last (artifacts t)) = Some ''response'' \<and>
           aindex (last (artifacts t)) = 0 \<and>
           lastChunk (last (artifacts t)) \<and>
           aparts (last (artifacts t)) = [text_part rt] \<and>
           role (last (history t)) = ''agent'' \<and>
           parts (last (history t)) = [text_part rt])) \<and>
   (normalized eb sb pb kb wb \<and>
    executor eb (langchain_messages (old_history sb kb @ [text_message ''user'' wb]))
      = Inr resultb \<and>
    response_text resultb = BlocksReply bs \<longrightarrow>
      (\<exists>t. handle_task_send eb sb pb = (Inr t, sb(kb \<mapsto> t)) \<and>
           state (status t) = FAILED \<and>
           message (status t) = Some (text_message ''agent'' (''Error: '' @ part_error eb bs)) \<and>
           history t = old_history sb kb @ [text_message ''user'' wb] \<and>
           artifacts t = old_artifacts sb kb))"
proof (intro conjI impI)
  assume a: "normalized e tasks params tid txt \<and>
    executor e (langchain_messages (old_history tasks tid @ [text_message ''user'' txt]))
      = Inr result \<and>
    response_text result = TextReply rt"
  then have n: "normalized e tasks params tid txt"
    and r: "response_text result = TextReply rt" by simp_all
  from a show "\<exists>t. handle_task_send e tasks params = (Inr t, tasks(tid \<mapsto> t)) \<and>
           state (status t) = COMPLETED \<and>
           message (status t) = Some (text_message ''agent'' rt) \<and>
           last (history t) = text_message ''agent'' rt \<and>
           history t = old_history tasks tid @
             [text_message ''user'' txt, text_message ''agent'' rt] \<and>
           artifacts t = old_artifacts tasks tid @ [response_artifact rt] \<and>
           (artifacts t = [response_artifact rt]) = (old_artifacts tasks tid = []) \<and>
           aname (last (artifacts t)) = Some ''response'' \<and>
           aindex (last (artifacts t)) = 0 \<and>
           lastChunk (last (artifacts t)) \<and>
           aparts (last (artifacts t)) = [text_part rt] \<and>
           role (last (history t)) = ''agent'' \<and>
           parts (last (history t)) = [text_part rt]"
    by (simp add: handle_task_send_normalized [OF n] finish_run_text [OF r] complete_task_def
        working_task_def prior_task_history response_artifact_def text_message_def)
next
  assume a: "normalized eb sb pb kb wb \<and>
    executor eb (langchain_messages (old_history sb kb @ [text_message ''user'' wb]))
      = Inr resultb \<and>
    response_text resultb = BlocksReply bs"
  then have n: "normalized eb sb pb kb wb"
    and r: "response_text resultb = BlocksReply bs" by simp_all
  from a show "\<exists>t. handle_task_send eb sb pb = (Inr t, sb(kb \<mapsto> t)) \<and>
           state (status t) = FAILED \<and>
           message (status t) = Some (text_message ''agent'' (''Error: '' @ part_error eb bs)) \<and>
           history t = old_history sb kb @ [text_message ''user'' wb] \<and>
           artifacts t = old_artifacts sb kb"
    by (simp add: handle_task_send_normalized [OF n] finish_run_blocks [OF r] fail_task_def
        working_task_def prior_task_history)
qed

theorem successful_run_witness:
  "normalized echo_env Map.empty calc_params_t1 ''t1'' ''Calculate 25 * 4'' \<and>
   executor echo_env
     (langchain_messages (old_history Map.empty ''t1'' @ [text_message ''user'' ''Calculate 25 * 4'']))
     = Inr [HumanMessage ''Calculate 25 * 4'', AIMessage ''100''] \<and>
   response_text [HumanMessage ''Calculate 25 * 4'', AIMessage ''100''] = TextReply ''100'' \<and>
   normalized blocks_env Map.empty calc_params_t1 ''t1'' ''Calculate 25 * 4'' \<and>
   executor blocks_env
     (langchain_messages (old_history Map.empty ''t1'' @ [text_message ''user'' ''Calculate 25 * 4'']))
     = Inr [HumanMessage ''Calculate 25 * 4'',
            AIMessageBlocks [JObj [(''type'', JStr ''text''), (''text'', JStr ''100'')]]] \<and>
   response_text [HumanMessage ''Calculate 25 * 4'',
                  AIMessageBlocks [JObj [(''type'', JStr ''text''), (''text'', JStr ''100'')]]]
     = BlocksReply [JObj [(''type'', JStr ''text''), (''text'', JStr ''100'')]] \<and>
   (\<exists>t. handle_task_send echo_env Map.empty calc_params_t1 = (Inr t, [''t1'' \<mapsto> t]) \<and>
        state (status t) = COMPLETED \<and>
        last (history t) = text_message ''agent'' ''100'' \<and>
        artifacts t = [response_artifact ''100'']) \<and>
   (\<exists>t. handle_task_send blocks_env Map.empty calc_params_t1 = (Inr t, [''t1'' \<mapsto> t]) \<and>
        state (status t) = FAILED \<and>
        history t = [text_message ''user'' ''Calculate 25 * 4''] \<and>
        artifacts t = [])"
proof -
  have n: "normalized echo_env Map.empty calc_params_t1 ''t1'' ''Calculate 25 * 4''"
    by (simp add: normalized_def calc_params_t1_def calc_params_def extract_user_text_def
        message_text_def dict_get_def py_or_def request_task_id_def request_session_id_def
        echo_env_def)
  have x: "executor echo_env
     (langchain_messages (old_history Map.empty ''t1'' @ [text_message ''user'' ''Calculate 25 * 4'']))
     = Inr [HumanMessage ''Calculate 25 * 4'', AIMessage ''100'']"
    by (simp add: echo_env_def old_history_def text_message_def text_part_def)
  have r: "response_text [HumanMessage ''Calculate 25 * 4'', AIMessage ''100''] = TextReply ''100''"
    by (simp add: response_text_def)
  have nb: "normalized blocks_env Map.empty calc_params_t1 ''t1'' ''Calculate 25 * 4''"
    by (simp add: normalized_def calc_params_t1_def calc_params_def extract_user_text_def
        message_text_def dict_get_def py_or_def request_task_id_def request_session_id_def
        blocks_env_def echo_env_def)
  have xb: "executor blocks_env
     (langchain_messages (old_history Map.empty ''t1'' @ [text_message ''user'' ''Calculate 25 * 4'']))
     = Inr [HumanMessage ''Calculate 25 * 4'',
            AIMessageBlocks [JObj [(''type'', JStr ''text''), (''text'', JStr ''100'')]]]"
    by (simp add: blocks_env_def old_history_def text_message_def text_part_def)
  have rb: "response_text [HumanMessage ''Calculate 25 * 4'',
                  AIMessageBlocks [JObj [(''type'', JStr ''text''), (''text'', JStr ''100'')]]]
     = BlocksReply [JObj [(''type'', JStr ''text''), (''text'', JStr ''100'')]]"
    by (simp add: response_text_def)
  have o: "old_history Map.empty ''t1'' = []" "old_artifacts Map.empty ''t1'' = []"
    by (simp_all add: old_history_def old_artifacts_def)
  from n x r nb xb rb
    successful_run [where e = echo_env and tasks = Map.empty and params = calc_params_t1
      and tid = "''t1''" and ?txt = "''Calculate 25 * 4''"
      and result = "[HumanMessage ''Calculate 25 * 4'', AIMessage ''100'']" and rt = "''100''"
      and eb = blocks_env and sb = Map.empty and pb = calc_params_t1 and kb = "''t1''"
      and wb = "''Calculate 25 * 4''"
      and resultb = "[HumanMessage ''Calculate 25 * 4'',
            AIMessageBlocks [JObj [(''type'', JStr ''text''), (''text'', JStr ''100'')]]]"
      and bs = "[JObj [(''type'', JStr ''text''), (''text'', JStr ''100'')]]"]
  show ?thesis unfolding o by auto
qed

text \<open>
  The claim as stated asks for exactly one artifact on the task, and for \<^verbatim>\<open>COMPLETED\<close>
  whenever the call of the graph succeeds. A second successful submission with the same
  id leaves two artifacts; and a call that returns a list of content blocks as reply ends
  \<^verbatim>\<open>FAILED\<close>.
\<close>

theorem one_artifact_counterexample:
  "normalized echo_env first_store calc_params_t1 ''t1'' ''Calculate 25 * 4'' \<and>
   \<not> isl (executor echo_env
            (langchain_messages
               (old_history first_store ''t1'' @ [text_message ''user'' ''Calculate 25 * 4'']))) \<and>
   fst (handle_task_send echo_env first_store calc_params_t1) = Inr twice_task \<and>
   state (status twice_task) = COMPLETED \<and>
   artifacts twice_task = [response_artifact ''100'', response_artifact ''100''] \<and>
   length (artifacts twice_task) = 2 \<and>
   normalized blocks_env Map.empty calc_params_t1 ''t1'' ''Calculate 25 * 4'' \<and>
   \<not> isl (executor blocks_env
            (langchain_messages
               (old_history Map.empty ''t1'' @ [text_message ''user'' ''Calculate 25 * 4'']))) \<and>
   fst (handle_task_send blocks_env Map.empty calc_params_t1) = Inr blocks_failed_task \<and>
   state (status blocks_failed_task) = FAILED \<and>
   artifacts blocks_failed_task = []"
proof -
  have n: "normalized echo_env first_store calc_params_t1 ''t1'' ''Calculate 25 * 4''"
    by (simp add: normalized_def calc_params_t1_def calc_params_def extract_user_text_def
        message_text_def dict_get_def py_or_def request_task_id_def first_store_eq)
  have x: "\<not> isl (executor echo_env
            (langchain_messages
               (old_history first_store ''t1'' @ [text_message ''user'' ''Calculate 25 * 4''])))"
    by (simp add: echo_env_def)
  have h: "fst (handle_task_send echo_env first_store calc_params_t1) = Inr twice_task"
    by (simp add: first_store_eq eval_defs text_message_def text_part_def twice_task_def)
  have nb: "normalized blocks_env Map.empty calc_params_t1 ''t1'' ''Calculate 25 * 4''"
    by (simp add: normalized_def calc_params_t1_def calc_params_def extract_user_text_def
        message_text_def dict_get_def py_or_def request_task_id_def request_session_id_def
        blocks_env_def echo_env_def)
  have xb: "\<not> isl (executor blocks_env
            (langchain_messages
               (old_history Map.empty ''t1'' @ [text_message ''user'' ''Calculate 25 * 4''])))"
    by (simp add: blocks_env_def)
  have hb: "fst (handle_task_send blocks_env Map.empty calc_params_t1) = Inr blocks_failed_task"
    by (simp add: eval_defs text_message_def text_part_def blocks_failed_task_def)
  from n x h nb xb hb show ?thesis by (simp add: twice_task_def blocks_failed_task_def)
qed

text \<open>
  Claim C4, amended. Every submission that \<^verbatim>\<open>handle_task_send\<close> returns from has
  appended exactly one user message to the task's history. A run that ends
  \<^verbatim>\<open>COMPLETED\<close> has appended exactly one agent message after it, and one artifact. A run
  that ends \<^verbatim>\<open>FAILED\<close> has appended no agent message and no artifact: the error message
  is carried by the status only. Submit only appends to the history and the artifacts of
  a stored task (the old lists are prefixes of the new ones), and cancel leaves them as
  they are.
\<close>

theorem history_append_only:
  "(handle_task_send e tasks params = (Inr t, tasks') \<longrightarrow>
      (\<exists>tid txt. normalized e tasks params tid txt \<and> tasks' = tasks(tid \<mapsto> t) \<and>
         ((state (status t) = COMPLETED \<and>
           (\<exists>reply. history t = old_history tasks tid @
                        [text_message ''user'' txt, text_message ''agent'' reply] \<and>
                    artifacts t = old_artifacts tasks tid @ [response_artifact reply])) \<or>
          (state (status t) = FAILED \<and>
           history t = old_history tasks tid @ [text_message ''user'' txt] \<and>
           artifacts t = old_artifacts tasks tid)))) \<and>
   (tasks k = Some t0 \<longrightarrow>
      (\<exists>t1. snd (handle_task_send e tasks params) k = Some t1 \<and>
            prefix (history t0) (history t1) \<and> prefix (artifacts t0) (artifacts t1))) \<and>
   (tasks k = Some t0 \<longrightarrow>
      (\<exists>t1. snd (handle_task_cancel now tasks params') k = Some t1 \<and>
            history t1 = history t0 \<and> artifacts t1 = artifacts t0))"
proof (intro conjI impI)
  assume "handle_task_send e tasks params = (Inr t, tasks')"
  from handle_task_send_Inr_cases [OF this]
  show "\<exists>tid txt. normalized e tasks params tid txt \<and> tasks' = tasks(tid \<mapsto> t) \<and>
         ((state (status t) = COMPLETED \<and>
           (\<exists>reply. history t = old_history tasks tid @
                        [text_message ''user'' txt, text_message ''agent'' reply] \<and>
                    artifacts t = old_artifacts tasks tid @ [response_artifact reply])) \<or>
          (state (status t) = FAILED \<and>
           history t = old_history tasks tid @ [text_message ''user'' txt] \<and>
           artifacts t = old_artifacts tasks tid))"
    by blast
next
  assume a: "tasks k = Some t0"
  from handle_task_send_keeps [of tasks k t0 e params, OF a]
  show "\<exists>t1. snd (handle_task_send e tasks params) k = Some t1 \<and>
            prefix (history t0) (history t1) \<and> prefix (artifacts t0) (artifacts t1)"
    by blast
next
  assume a: "tasks k = Some t0"
  from handle_task_cancel_keeps [of tasks k t0 now params', OF a]
  show "\<exists>t1. snd (handle_task_cancel now tasks params') k = Some t1 \<and>
            history t1 = history t0 \<and> artifacts t1 = artifacts t0"
    by blast
qed

theorem history_append_only_witness:
  "handle_task_send echo_env first_store calc_params_t1
     = (Inr twice_task, first_store(''t1'' \<mapsto> twice_task)) \<and>
   first_store ''t1'' = Some once_task \<and>
   (\<exists>tid txt. normalized echo_env first_store calc_params_t1 tid txt \<and>
      first_store(''t1'' \<mapsto> twice_task) = first_store(tid \<mapsto> twice_task) \<and>
      ((state (status twice_task) = COMPLETED \<and>
        (\<exists>reply. history twice_task = old_history first_store tid @
                     [text_message ''user'' txt, text_message ''agent'' reply] \<and>
                 artifacts twice_task = old_artifacts first_store tid @ [response_artifact reply])) \<or>
       (state (status twice_task) = FAILED \<and>
        history twice_task = old_history first_store tid @ [text_message ''user'' txt] \<and>
        artifacts twice_task = old_artifacts first_store tid))) \<and>
   (\<exists>t1. snd (handle_task_send echo_env first_store calc_params_t1) ''t1'' = Some t1 \<and>
         prefix (history once_task) (history t1) \<and> prefix (artifacts once_task) (artifacts t1)) \<and>
   (\<exists>t1. snd (handle_task_cancel ''T3'' first_store [(''id'', JStr ''t1'')]) ''t1'' = Some t1 \<and>
         history t1 = history once_task \<and> artifacts t1 = artifacts once_task)"
proof -
  have h1: "handle_task_send echo_env first_store calc_params_t1
              = (Inr twice_task, first_store(''t1'' \<mapsto> twice_task))"
    by (simp add: first_store_eq eval_defs text_message_def text_part_def twice_task_def)
  have h2: "first_store ''t1'' = Some once_task"
    by (simp add: first_store_once)
  from h1 h2
    history_append_only [where e = echo_env and tasks = first_store and params = calc_params_t1
      and t = twice_task and tasks' = "first_store(''t1'' \<mapsto> twice_task)" and k = "''t1''"
      and ?t0.0 = once_task and now = "''T3''" and params' = "[(''id'', JStr ''t1'')]"]
  show ?thesis by blast
qed

text \<open>
  The claim as stated has every run that ends \<^verbatim>\<open>FAILED\<close> append an agent message to the
  history. After a submission to the empty store whose call of the graph raises, the
  history holds the user message alone.
\<close>

theorem failed_run_counterexample:
  "handle_task_send failing_env Map.empty calc_params_t1 = (Inr failed_task, [''t1'' \<mapsto> failed_task]) \<and>
   state (status failed_task) = FAILED \<and>
   history failed_task = [text_message ''user'' ''Calculate 25 * 4''] \<and>
   length (history failed_task) = 1"
  by (simp add: eval_defs failed_task_def text_message_def text_part_def)

text \<open>
  Claim C5. Query and cancel with an id that is not in the store, or without an id, raise
  the "Task not found" error and leave the store as it is. Cancel with an id that is in
  the store sets the status to \<^verbatim>\<open>CANCELED\<close> whatever the status was (there is no test of
  the current state), and query returns the stored task.
\<close>

theorem query_cancel_by_id:
  "(dict_get params ''id'' JNull = JStr unknown \<and> tasks unknown = None \<longrightarrow>
      handle_task_get tasks params = Inl TaskNotFound \<and>
      handle_task_cancel now tasks params = (Inl TaskNotFound, tasks)) \<and>
   (map_of params0 ''id'' = None \<longrightarrow>
      handle_task_get tasks params0 = Inl TaskNotFound \<and>
      handle_task_cancel now tasks params0 = (Inl TaskNotFound, tasks)) \<and>
   (store_inv tasks \<and> dict_get params' ''id'' JNull = JStr tid \<and> tasks tid = Some t \<longrightarrow>
      handle_task_get tasks params' = Inr t \<and>
      handle_task_cancel now tasks params' =
        (Inr (t\<lparr>status := \<lparr>state = CANCELED, message = None, timestamp = now\<rparr>\<rparr>),
         tasks(tid \<mapsto> t\<lparr>status := \<lparr>state = CANCELED, message = None, timestamp = now\<rparr>\<rparr>)) \<and>
      state (status (t\<lparr>status := \<lparr>state = CANCELED, message = None, timestamp = now\<rparr>\<rparr>)) = CANCELED)"
proof (intro conjI impI)
  assume "dict_get params ''id'' JNull = JStr unknown \<and> tasks unknown = None"
  then show "handle_task_get tasks params = Inl TaskNotFound"
    and "handle_task_cancel now tasks params = (Inl TaskNotFound, tasks)"
    by (simp_all add: handle_task_get_def handle_task_cancel_def lookup_task_def)
next
  assume "map_of params0 ''id'' = None"
  then show "handle_task_get tasks params0 = Inl TaskNotFound"
    and "handle_task_cancel now tasks params0 = (Inl TaskNotFound, tasks)"
    by (simp_all add: handle_task_get_def handle_task_cancel_def lookup_task_def dict_get_def)
next
  assume a: "store_inv tasks \<and> dict_get params' ''id'' JNull = JStr tid \<and> tasks tid = Some t"
  then have "tid \<noteq> []" by (auto simp: store_inv_def)
  with a show "handle_task_get tasks params' = Inr t"
    and "handle_task_cancel now tasks params' =
        (Inr (t\<lparr>status := \<lparr>state = CANCELED, message = None, timestamp = now\<rparr>\<rparr>),
         tasks(tid \<mapsto> t\<lparr>status := \<lparr>state = CANCELED, message = None, timestamp = now\<rparr>\<rparr>))"
    by (simp_all add: handle_task_get_def handle_task_cancel_def lookup_task_def Let_def)
  show "state (status (t\<lparr>status := \<lparr>state = CANCELED, message = None, timestamp = now\<rparr>\<rparr>)) = CANCELED"
    by simp
qed


theorem query_cancel_by_id_witness:
  "dict_get [(''id'', JStr ''zz'')] ''id'' JNull = JStr ''zz'' \<and> first_store ''zz'' = None \<and>
   map_of [(''sessionId'', JStr ''s'')] ''id'' = None \<and>
   store_inv first_store \<and> dict_get [(''id'', JStr ''t1'')] ''id'' JNull = JStr ''t1'' \<and>
   first_store ''t1'' = Some once_task \<and> state (status once_task) = COMPLETED \<and>
   handle_task_get first_store [(''id'', JStr ''zz'')] = Inl TaskNotFound \<and>
   handle_task_cancel ''T3'' first_store [(''id'', JStr ''zz'')] = (Inl TaskNotFound, first_store) \<and>
   handle_task_get first_store [(''sessionId'', JStr ''s'')] = Inl TaskNotFound \<and>
   handle_task_cancel ''T3'' first_store [(''sessionId'', JStr ''s'')] = (Inl TaskNotFound, first_store) \<and>
   handle_task_get first_store [(''id'', JStr ''t1'')] = Inr once_task \<and>
   handle_task_cancel ''T3'' first_store [(''id'', JStr ''t1'')] =
     (Inr (once_task\<lparr>status := \<lparr>state = CANCELED, message = None, timestamp = ''T3''\<rparr>\<rparr>),
      first_store(''t1'' \<mapsto>
        once_task\<lparr>status := \<lparr>state = CANCELED, message = None, timestamp = ''T3''\<rparr>\<rparr>))"
proof -
  have h1: "dict_get [(''id'', JStr ''zz'')] ''id'' JNull = JStr ''zz'' \<and> first_store ''zz'' = None"
    by (simp add: dict_get_def first_store_once)
  have h2: "map_of [(''sessionId'', JStr ''s'')] ''id'' = None" by simp
  have h3: "store_inv first_store \<and> dict_get [(''id'', JStr ''t1'')] ''id'' JNull = JStr ''t1'' \<and>
            first_store ''t1'' = Some once_task"
    using store_inv_first_store by (simp add: dict_get_def first_store_once store_inv_def once_task_def)
  have h4: "state (status once_task) = COMPLETED" by (simp add: once_task_def)
  from h1 h2 h3 h4
    query_cancel_by_id [where params = "[(''id'', JStr ''zz'')]" and unknown = "''zz''"
      and tasks = first_store and now = "''T3''" and ?params0.0 = "[(''sessionId'', JStr ''s'')]"
      and params' = "[(''id'', JStr ''t1'')]" and tid = "''t1''" and t = once_task]
  show ?thesis by simp
qed





text \<open>
  Claim C8, amended. With no secret configured every request passes. With a secret
  configured, a request without the header is rejected with status 401 ("Missing
  Authorization header"). A header that is a token, or \<^verbatim>\<open>"Bearer "\<close> followed by a token,
  where the token holds no further \<^verbatim>\<open>"Bearer "\<close>, is accepted exactly when the token
  without its surrounding whitespace equals the secret, and is otherwise rejected with
  status 401 ("Invalid API key").
\<close>

theorem verify_api_key_bearer:
  "verify_api_key [] authorization = Inr True \<and>
   (secret \<noteq> [] \<longrightarrow>
      verify_api_key secret None = Inl (HTTPException 401 ''Missing Authorization header'')) \<and>
   (key \<noteq> [] \<and> \<not> sublist ''Bearer '' tok \<and> (h = tok \<or> h = ''Bearer '' @ tok) \<longrightarrow>
      (verify_api_key key (Some h) = Inr True) = (strip tok = key)) \<and>
   (key' \<noteq> [] \<and> \<not> sublist ''Bearer '' tok' \<and> (h' = tok' \<or> h' = ''Bearer '' @ tok') \<and>
    h' \<noteq> [] \<and> strip tok' \<noteq> key' \<longrightarrow>
      verify_api_key key' (Some h') = Inl (HTTPException 401 ''Invalid API key''))"
proof (intro conjI impI)
  show "verify_api_key [] authorization = Inr True" by (simp add: verify_api_key_def)
next
  assume "secret \<noteq> []"
  then show "verify_api_key secret None = Inl (HTTPException 401 ''Missing Authorization header'')"
    by (simp add: verify_api_key_def)
next
  assume a: "key \<noteq> [] \<and> \<not> sublist ''Bearer '' tok \<and> (h = tok \<or> h = ''Bearer '' @ tok)"
  show "(verify_api_key key (Some h) = Inr True) = (strip tok = key)"
  proof (cases "h = []")
    case True
    with a have "tok = []" by auto
    with True a show ?thesis by (auto simp: verify_api_key_def strip_Nil)
  next
    case False
    with a verify_api_key_token [of key tok h] show ?thesis by simp
  qed
next
  assume "key' \<noteq> [] \<and> \<not> sublist ''Bearer '' tok' \<and> (h' = tok' \<or> h' = ''Bearer '' @ tok') \<and>
    h' \<noteq> [] \<and> strip tok' \<noteq> key'"
  with verify_api_key_token [of key' tok' h']
  show "verify_api_key key' (Some h') = Inl (HTTPException 401 ''Invalid API key'')" by simp
qed

theorem verify_api_key_bearer_witness:
  "''demo-api-key-12345'' \<noteq> [] \<and> \<not> sublist ''Bearer '' '' demo-api-key-12345'' \<and>
   strip '' demo-api-key-12345'' = ''demo-api-key-12345'' \<and>
   \<not> sublist ''Bearer '' ''wrong-key'' \<and> ''Bearer wrong-key'' \<noteq> [] \<and>
   strip ''wrong-key'' \<noteq> ''demo-api-key-12345'' \<and>
   verify_api_key [] None = Inr True \<and>
   verify_api_key ''demo-api-key-12345'' None
     = Inl (HTTPException 401 ''Missing Authorization header'') \<and>
   verify_api_key ''demo-api-key-12345'' (Some (''Bearer '' @ '' demo-api-key-12345'')) = Inr True \<and>
   verify_api_key ''demo-api-key-12345'' (Some (''Bearer '' @ ''wrong-key''))
     = Inl (HTTPException 401 ''Invalid API key'')"
proof -
  have s1: "strip '' demo-api-key-12345'' = ''demo-api-key-12345''"
    by (simp add: strip_def is_space_def)
  have s2: "strip ''wrong-key'' \<noteq> ''demo-api-key-12345''"
    by (simp add: strip_def is_space_def)
  from s1 s2 no_bearer_demo no_bearer_wrong
    verify_api_key_bearer [where authorization = None and secret = "''demo-api-key-12345''"
      and key = "''demo-api-key-12345''" and tok = "'' demo-api-key-12345''"
      and h = "''Bearer '' @ '' demo-api-key-12345''"
      and key' = "''demo-api-key-12345''" and tok' = "''wrong-key''"
      and h' = "''Bearer '' @ ''wrong-key''"]
  show ?thesis by simp
qed

text \<open>
  The claim as stated accepts a header only when its value, the prefix stripped, equals
  the secret. The code also strips whitespace around the token, and removes
  \<^verbatim>\<open>"Bearer "\<close> wherever it occurs.
\<close>

theorem bearer_whitespace_counterexample:
  "verify_api_key ''demo-api-key-12345'' (Some ''Bearer  demo-api-key-12345'') = Inr True \<and>
   \<not> spec_authenticated ''demo-api-key-12345'' (Some ''Bearer  demo-api-key-12345'') \<and>
   verify_api_key ''demo-api-key-12345'' (Some ''demo-api-Bearer key-12345'') = Inr True \<and>
   \<not> spec_authenticated ''demo-api-key-12345'' (Some ''demo-api-Bearer key-12345'')"
  by (simp add: verify_api_key_def strip_def is_space_def spec_authenticated_def
      strip_bearer_prefix_def)

text \<open>
  Claim C9, amended. The conversation passed to the graph holds, in history order, one
  turn for every part with non-empty text of every message of the history (a
  \<^verbatim>\<open>HumanMessage\<close> for the role \<^verbatim>\<open>"user"\<close>, an \<^verbatim>\<open>AIMessage\<close> for any other role); parts
  without text or with empty text give no turn. The user message appended by the
  current submission is its last turn, and nothing is cut off. For a history whose
  messages each hold one part with non-empty text, this is one turn per message, the
  projection the specification words.
\<close>

theorem conversation_projection:
  "langchain_messages h = concat (map (\<lambda>m. map (turn (role m)) (texts m)) h) \<and>
   (normalized e tasks params tid txt \<longrightarrow>
      handle_task_send e tasks params =
        finish_run e (tasks(tid \<mapsto> working_task e tasks params tid txt)) tid
          (working_task e tasks params tid txt)
          (executor e (langchain_messages (old_history tasks tid) @ [HumanMessage txt]))) \<and>
   (list_all one_text h' \<longrightarrow>
      langchain_messages h' = spec_conversation h' \<and>
      length (langchain_messages h') = length h')"
proof (intro conjI impI)
  show "langchain_messages h = concat (map (\<lambda>m. map (turn (role m)) (texts m)) h)"
    by (rule langchain_messages_concat)
next
  assume n: "normalized e tasks params tid txt"
  from normalized_text_nonempty [OF n]
  have "langchain_messages [text_message ''user'' txt] = [HumanMessage txt]"
    by (simp add: text_message_def text_part_def)
  then show "handle_task_send e tasks params =
        finish_run e (tasks(tid \<mapsto> working_task e tasks params tid txt)) tid
          (working_task e tasks params tid txt)
          (executor e (langchain_messages (old_history tasks tid) @ [HumanMessage txt]))"
    by (simp add: handle_task_send_normalized [OF n] langchain_messages_append)
next
  assume a: "list_all one_text h'"
  then show "langchain_messages h' = spec_conversation h'" by (rule langchain_messages_single)
  with spec_conversation_length [OF a] show "length (langchain_messages h') = length h'" by simp
qed

theorem conversation_projection_witness:
  "normalized echo_env first_store calc_params_t1 ''t1'' ''Calculate 25 * 4'' \<and>
   list_all one_text (history once_task) \<and>
   langchain_messages (history once_task)
     = concat (map (\<lambda>m. map (turn (role m)) (texts m)) (history once_task)) \<and>
   handle_task_send echo_env first_store calc_params_t1 =
     finish_run echo_env
       (first_store(''t1'' \<mapsto> working_task echo_env first_store calc_params_t1 ''t1'' ''Calculate 25 * 4''))
       ''t1'' (working_task echo_env first_store calc_params_t1 ''t1'' ''Calculate 25 * 4'')
       (executor echo_env
          (langchain_messages (old_history first_store ''t1'') @ [HumanMessage ''Calculate 25 * 4''])) \<and>
   langchain_messages (old_history first_store ''t1'')
     = [HumanMessage ''Calculate 25 * 4'', AIMessage ''100''] \<and>
   langchain_messages (history once_task) = spec_conversation (history once_task) \<and>
   length (langchain_messages (history once_task)) = length (history once_task)"
proof -
  have n: "normalized echo_env first_store calc_params_t1 ''t1'' ''Calculate 25 * 4''"
    by (simp add: normalized_def calc_params_t1_def calc_params_def extract_user_text_def
        message_text_def dict_get_def py_or_def request_task_id_def first_store_once)
  have a: "list_all one_text (history once_task)"
    by (simp add: once_task_def one_text_def text_message_def text_part_def)
  have l: "langchain_messages (old_history first_store ''t1'')
     = [HumanMessage ''Calculate 25 * 4'', AIMessage ''100'']"
    by (simp add: first_store_once old_history_def once_task_def text_message_def text_part_def)
  from n a l
    conversation_projection [where h = "history once_task" and e = echo_env and tasks = first_store
      and params = calc_params_t1 and tid = "''t1''" and ?txt = "''Calculate 25 * 4''"
      and h' = "history once_task"]
  show ?thesis by blast
qed


text \<open>
  The claim as stated gives every message of the history a turn. After a run that the
  graph answered with empty content, the history holds an agent message with empty text,
  and the next submission's conversation leaves it out.
\<close>

theorem empty_turn_counterexample:
  "old_history silent_store ''t1''
     = [text_message ''user'' ''Calculate 25 * 4'', text_message ''agent'' []] \<and>
   langchain_messages (old_history silent_store ''t1'' @ [text_message ''user'' ''Calculate 25 * 4''])
     = [HumanMessage ''Calculate 25 * 4'', HumanMessage ''Calculate 25 * 4''] \<and>
   spec_conversation (old_history silent_store ''t1'' @ [text_message ''user'' ''Calculate 25 * 4''])
     = [HumanMessage ''Calculate 25 * 4'', AIMessage [], HumanMessage ''Calculate 25 * 4''] \<and>
   handle_task_send echo_env silent_store calc_params_t1
     = finish_run echo_env
         (silent_store(''t1'' \<mapsto> working_task echo_env silent_store calc_params_t1 ''t1'' ''Calculate 25 * 4''))
         ''t1'' (working_task echo_env silent_store calc_params_t1 ''t1'' ''Calculate 25 * 4'')
         (executor echo_env [HumanMessage ''Calculate 25 * 4'', HumanMessage ''Calculate 25 * 4''])"
proof -
  have o: "old_history silent_store ''t1''
     = [text_message ''user'' ''Calculate 25 * 4'', text_message ''agent'' []]"
    by (simp add: silent_store_eq old_history_def)
  have l: "langchain_messages (old_history silent_store ''t1'' @ [text_message ''user'' ''Calculate 25 * 4''])
     = [HumanMessage ''Calculate 25 * 4'', HumanMessage ''Calculate 25 * 4'']"
    by (simp add: o text_message_def text_part_def)
  have s: "spec_conversation (old_history silent_store ''t1'' @ [text_message ''user'' ''Calculate 25 * 4''])
     = [HumanMessage ''Calculate 25 * 4'', AIMessage [], HumanMessage ''Calculate 25 * 4'']"
    by (simp add: o spec_conversation_def first_text_def text_message_def text_part_def turn_def
        List.map_filter_simps)
  have n: "normalized echo_env silent_store calc_params_t1 ''t1'' ''Calculate 25 * 4''"
    by (simp add: normalized_def calc_params_t1_def calc_params_def extract_user_text_def
        message_text_def dict_get_def py_or_def request_task_id_def silent_store_eq)
  from handle_task_send_normalized [OF n] l o s show ?thesis by simp
qed

text \<open>
  Claim C2. The specification has the extraction end in \<open>NoContentFound\<close> when no rule
  gives text, and go on to the next rule otherwise. For the payload
  \<^verbatim>\<open>{"message": "hello"}\<close> the code raises \<^verbatim>\<open>AttributeError\<close> instead (line 254 calls
  \<^verbatim>\<open>.get\<close> on the string), and it does so too when a top-level \<^verbatim>\<open>text\<close> is there.
\<close>

theorem message_string_raises:
  "extract_user_text [(''message'', JStr ''hello'')] = Inl AttributeError \<and>
   spec_extract [(''message'', JStr ''hello'')] = Inl NoContentFound \<and>
   handle_task_send echo_env Map.empty [(''message'', JStr ''hello'')]
     = (Inl AttributeError, Map.empty) \<and>
   handle_task_send echo_env Map.empty [(''message'', JStr ''hello''), (''text'', JStr ''hi'')]
     = (Inl AttributeError, Map.empty) \<and>
   spec_extract [(''message'', JStr ''hello''), (''text'', JStr ''hi'')] = Inr (JStr ''hi'')"
  by (simp add: handle_task_send_def open_task_def extract_user_text_def message_text_def
      dict_get_def spec_extract_def spec_rules_def py_or_def)

end
